theory Spec2Isabelle
  imports Main "HOL-Library.Word" "HOL-Library.AList"
begin

unbundle bit_operations_syntax

section \<open>Engine API server of the execution node\<close>

text \<open>
  A shallow embedding of the Go package \<open>engineapi\<close> (the engine server) and of the
  consensus-side client \<open>execution_client\<close>. Go values are modelled by the types
  they have in the source: \<open>uint64\<close> is a 64-bit word (its arithmetic wraps), a
  \<open>libcommon.Hash\<close> is a 256-bit word whose zero value is \<open>0\<close>, a byte slice is a
  list of 8-bit words, a pointer or slice that may be \<open>nil\<close> is an \<open>option\<close>.
\<close>

subsection \<open>Basic types\<close>

type_synonym byte = "8 word"
type_synonym uint64 = "64 word"
type_synonym hash = "256 word"
type_synonym address = "160 word"
type_synonym bytes = "byte list"

subsection \<open>Payload id on the wire\<close>

text \<open>
  \<open>binary.BigEndian.PutUint64(b, v)\<close> of the Go standard library: after the bounds
  check \<open>_ = b[7]\<close> it stores \<open>byte(v >> 56)\<close>, ..., \<open>byte(v)\<close> at \<open>b[0]\<close>, ...,
  \<open>b[7]\<close>. \<open>None\<close> is the run-time panic of the bounds check.
\<close>

definition PutUint64 :: "bytes \<Rightarrow> uint64 \<Rightarrow> bytes option" where
  "PutUint64 b v =
     (if length b < 8 then None
      else Some (b[0 := ucast (drop_bit 56 v),
                   1 := ucast (drop_bit 48 v),
                   2 := ucast (drop_bit 40 v),
                   3 := ucast (drop_bit 32 v),
                   4 := ucast (drop_bit 24 v),
                   5 := ucast (drop_bit 16 v),
                   6 := ucast (drop_bit 8 v),
                   7 := ucast v]))"

text \<open>
  \<open>binary.BigEndian.Uint64(b)\<close>: the bounds check \<open>_ = b[7]\<close>, then
  \<open>uint64(b[7]) | uint64(b[6])<<8 | ... | uint64(b[0])<<56\<close>. \<open>None\<close> is the panic
  of the bounds check on a slice shorter than 8 bytes.
\<close>

definition Uint64 :: "bytes \<Rightarrow> uint64 option" where
  "Uint64 b =
     (if length b < 8 then None
      else Some (ucast (b ! 7) OR push_bit 8 (ucast (b ! 6)) OR push_bit 16 (ucast (b ! 5)) OR
                 push_bit 24 (ucast (b ! 4)) OR push_bit 32 (ucast (b ! 3)) OR
                 push_bit 40 (ucast (b ! 2)) OR push_bit 48 (ucast (b ! 1)) OR
                 push_bit 56 (ucast (b ! 0))))"

text \<open>
  \<open>convertPayloadId\<close>: \<open>make([]byte, 8)\<close> is eight zero bytes, so the bounds check
  of \<open>PutUint64\<close> cannot fail there; the \<open>None\<close> branch below is unreachable and
  returns the untouched buffer.
\<close>

definition convertPayloadId :: "uint64 \<Rightarrow> bytes" where
  "convertPayloadId payloadId =
     (let encodedPayloadId = replicate 8 0 in
      case PutUint64 encodedPayloadId payloadId of
        Some ret \<Rightarrow> ret
      | None \<Rightarrow> encodedPayloadId)"

subsection \<open>Errors and outcomes\<close>

text \<open>
  The Go errors the server returns. \<open>InvalidParamsError\<close> is \<open>rpc.InvalidParamsError\<close>
  with its message; \<open>TooLargeRequestErr\<close>, \<open>UnknownPayloadErr\<close> and
  \<open>InvalidPayloadAttributesErr\<close> are the error values of package \<open>engine_helpers\<close>;
  \<open>Errorf\<close> is an error made by \<open>fmt.Errorf\<close> or \<open>errors.New\<close>, or returned by a
  collaborator, with its message.
\<close>

datatype error =
    InvalidParamsError string
  | TooLargeRequestErr
  | UnknownPayloadErr
  | InvalidPayloadAttributesErr
  | Errorf string

text \<open>
  What a call of a server method does: it returns a value, returns an error, panics at run
  time (nil dereference, index out of range), or blocks forever on the importer's reply
  channel.
\<close>

datatype 'a outcome = Ok 'a | Err error | Panics | Blocks

subsection \<open>Data model\<close>

text \<open>
  \<open>clparams.StateVersion\<close> is an integer enumeration; its declaration is not part of the
  sources at hand, only its order is used (\<open>version >= clparams.CapellaVersion\<close>).
\<close>

type_synonym StateVersion = nat

definition BellatrixVersion :: StateVersion where "BellatrixVersion = 2"
definition CapellaVersion :: StateVersion where "CapellaVersion = 3"
definition DenebVersion :: StateVersion where "DenebVersion = 4"

record Withdrawal =
  Index :: uint64
  Validator :: uint64
  Address :: address
  Amount :: uint64

text \<open>\<open>engine_types.ExecutionPayload\<close>, the envelope of a block on the wire.\<close>

record ExecutionPayload =
  ParentHash :: hash
  FeeRecipient :: address
  StateRoot :: hash
  ReceiptsRoot :: hash
  LogsBloom :: bytes
  PrevRandao :: hash
  BlockNumber :: uint64
  GasLimit :: uint64
  GasUsed :: uint64
  Timestamp :: uint64
  ExtraData :: bytes
  BaseFeePerGas :: "int option"
  BlockHash :: hash
  Transactions :: "bytes list"
  Withdrawals :: "Withdrawal list option"
  DataGasUsed :: "uint64 option"
  ExcessDataGas :: "uint64 option"

text \<open>
  \<open>types.Header\<close>, with the fields this package sets or reads. Where two structs of the
  source share a field name, the fields of one of them carry a short prefix here
  (\<open>hParentHash\<close> is \<open>Header.ParentHash\<close>).
\<close>

record Header =
  hParentHash :: hash
  hUncleHash :: hash
  hCoinbase :: address
  hRoot :: hash
  hTxHash :: hash
  hReceiptHash :: hash
  hBloom :: bytes
  hDifficulty :: int
  hNumber :: int
  hGasLimit :: uint64
  hGasUsed :: uint64
  hTime :: uint64
  hExtra :: bytes
  hMixDigest :: hash
  hNonce :: uint64
  hBaseFee :: "int option"
  hWithdrawalsHash :: "hash option"
  hDataGasUsed :: "uint64 option"
  hExcessDataGas :: "uint64 option"

text \<open>
  \<open>types.Transaction\<close> is an interface of package \<open>types\<close>; a decoded transaction is
  modelled by what this package asks of it: its type byte, the result of
  \<open>MarshalBinary\<close>, its effective gas tip for a base fee, and, when the dynamic type is
  \<open>*types.BlobTxWrapper\<close>, the blob data of the wrapper.
\<close>

record BlobTxWrapper =
  GetDataHashes :: "hash list"
  Commitments :: "bytes list"
  Proofs :: "bytes list"
  Blobs :: "bytes list"

record Transaction =
  Type :: byte
  MarshalBinary :: "error + bytes"
  GetEffectiveGasTip :: "256 word \<Rightarrow> 256 word"
  asBlobTxWrapper :: "BlobTxWrapper option"

record Block =
  bHash :: hash
  bHeader :: Header
  bTransactions :: "Transaction list"
  bUncles :: "Header list"
  bWithdrawals :: "Withdrawal list option"

definition NewBlockFromStorage ::
  "hash \<Rightarrow> Header \<Rightarrow> Transaction list \<Rightarrow> Header list \<Rightarrow> Withdrawal list option \<Rightarrow> Block" where
  "NewBlockFromStorage h header txs uncles withdrawals =
     \<lparr>bHash = h, bHeader = header, bTransactions = txs, bUncles = uncles,
      bWithdrawals = withdrawals\<rparr>"

record Receipt =
  rGasUsed :: uint64

record BlockWithReceipts =
  brBlock :: Block
  brReceipts :: "Receipt list"

record ForkChoiceState =
  HeadHash :: hash
  SafeBlockHash :: hash
  FinalizedBlockHash :: hash

record PayloadAttributes =
  paTimestamp :: uint64
  paPrevRandao :: hash
  paSuggestedFeeRecipient :: address
  paWithdrawals :: "Withdrawal list option"

text \<open>
  \<open>engine_types.PayloadStatus\<close>: the status, the optional latest valid hash, the optional
  validation error (a \<open>StringifiedError\<close>, kept as its text) and the critical error an
  importer reply may carry.
\<close>

datatype EngineStatus =
  SyncingStatus | ValidStatus | InvalidStatus | InvalidBlockHashStatus | AcceptedStatus

record PayloadStatus =
  Status :: EngineStatus
  LatestValidHash :: "hash option"
  ValidationError :: "string option"
  CriticalError :: "error option"

record ForkChoiceUpdatedResponse =
  fcuPayloadStatus :: "PayloadStatus option"
  fcuPayloadId :: "bytes option"

text \<open>\<open>core.BlockBuilderParameters\<close>, and a builder made from them.\<close>

record BlockBuilderParameters =
  bpParentHash :: hash
  bpTimestamp :: uint64
  bpPrevRandao :: hash
  bpSuggestedFeeRecipient :: address
  bpWithdrawals :: "Withdrawal list option"
  bpPayloadId :: uint64

datatype BlockBuilder = NewBlockBuilder BlockBuilderParameters

subsection \<open>Collaborators\<close>

text \<open>
  \<open>chain.Config\<close>: the fork predicates by timestamp and the terminal total difficulty
  (a \<open>*big.Int\<close>, \<open>nil\<close> on a chain that is not proof-of-stake).
\<close>

record Config =
  IsShanghai :: "uint64 \<Rightarrow> bool"
  IsCancun :: "uint64 \<Rightarrow> bool"
  TerminalTotalDifficulty :: "int option"

text \<open>
  Functions and constants of packages \<open>types\<close>, \<open>merge\<close> and \<open>engine_helpers\<close>
  that the server calls and whose code is not part of these sources: the header hash
  (keccak of the RLP encoding), the Merkle roots of \<open>types.DeriveSha\<close>, the check and
  the decoder of raw transactions (the decoder's error is kept as its text), the constant
  \<open>types.EmptyUncleHash\<close>, and the constant \<open>engine_helpers.MaxBuilders\<close>.
\<close>

record Lib =
  HeaderHash :: "Header \<Rightarrow> hash"
  DeriveShaTransactions :: "bytes list \<Rightarrow> hash"
  DeriveShaWithdrawals :: "Withdrawal list \<Rightarrow> hash"
  TypedTransactionMarshalledAsRlpString :: "bytes \<Rightarrow> bool"
  DecodeTransactions :: "bytes list \<Rightarrow> string + Transaction list"
  EmptyUncleHash :: hash
  MaxBuilders :: int

text \<open>
  A read transaction on the chain store (\<open>kv.Tx\<close>), given by the answers of the
  \<open>rawdb\<close> and block-reader functions applied to it.
\<close>

record Tx =
  ReadForkchoiceFinalized :: hash
  ReadForkchoiceHead :: hash
  ReadForkchoiceSafe :: hash
  ReadHeaderByHash :: "hash \<Rightarrow> error + Header option"
  ReadTdByHash :: "hash \<Rightarrow> error + int option"
  CanonicalHash :: "uint64 \<Rightarrow> error + hash"
  ReadHeadBlockHash :: hash
  ReadHeaderNumber :: "hash \<Rightarrow> uint64 option"
  ReadHeader :: "hash \<Rightarrow> uint64 \<Rightarrow> Header option"
  ReadCanonicalHash :: "uint64 \<Rightarrow> error + hash"
  BlockWithSenders :: "hash \<Rightarrow> uint64 \<Rightarrow> error + Block option"
  BlockByHash :: "hash \<Rightarrow> error + Block option"

text \<open>
  The header downloader \<open>headerdownload.HeaderDownload\<close> as one call of the server sees
  it: the sync flags, the bad-header memory, the outcome of
  \<open>BeaconRequestList.WaitForWaiting\<close> (whether the list is already waiting, and
  otherwise whether the wait channel fires before the one-second deadline), and the value
  received from \<open>PayloadStatusCh\<close> (\<open>None\<close>: no reply ever arrives).
\<close>

datatype SyncStatus = Idle | Syncing | Synced

record HeaderDownload =
  POSSync :: bool
  PosStatus :: SyncStatus
  IsBadHeaderPoS :: "hash \<Rightarrow> bool \<times> hash"
  WaitForWaiting_ok :: bool
  WaitForWaiting_fires :: bool
  PayloadStatusCh :: "PayloadStatus option"

text \<open>The calls that change the header downloader, recorded in the order they are made.\<close>

datatype hd_call =
    ReportBadHeaderPoS hash hash
  | AddPayloadRequest Block
  | AddForkChoiceRequest ForkChoiceState

text \<open>
  The collaborators during one call of a server method: the header downloader the server
  points to (\<open>None\<close>: the pointer is \<open>nil\<close>), the result of the \<open>k\<close>-th call of
  \<open>db.BeginRo\<close> within the method (counted from 0), and what a builder yields when it
  is stopped.
\<close>

record World =
  hd :: "HeaderDownload option"
  BeginRo :: "nat \<Rightarrow> error + Tx"
  Stop :: "BlockBuilder \<Rightarrow> error + BlockWithReceipts"

text \<open>
  \<open>EngineServer\<close>: the chain configuration and the state of block proposing. The map
  \<open>builders\<close> is an association list with distinct keys.
\<close>

record EngineServer =
  config :: Config
  payloadId :: uint64
  lastParameters :: "BlockBuilderParameters option"
  builders :: "(uint64 \<times> BlockBuilder) list"
  proposing :: bool

definition NewEngineServer :: "Config \<Rightarrow> bool \<Rightarrow> EngineServer" where
  "NewEngineServer cfg prop =
     \<lparr>config = cfg, payloadId = 0, lastParameters = None, builders = [], proposing = prop\<rparr>"

subsection \<open>NewPayload and the status classifier\<close>

text \<open>\<open>(*big.Int).Uint64\<close>: the low 64 bits of the absolute value.\<close>

definition bigUint64 :: "int \<Rightarrow> uint64" where
  "bigUint64 x = word_of_int \<bar>x\<bar>"

definition stageLoopIsBusy :: "HeaderDownload \<Rightarrow> bool" where
  "stageLoopIsBusy h =
     (if \<not> WaitForWaiting_ok h then (if WaitForWaiting_fires h then False else True)
      else False)"

definition checkWithdrawalsPresence ::
  "EngineServer \<Rightarrow> uint64 \<Rightarrow> Withdrawal list option \<Rightarrow> error option" where
  "checkWithdrawalsPresence s time withdrawals =
     (if \<not> IsShanghai (config s) time \<and> withdrawals \<noteq> None
        then Some (InvalidParamsError ''withdrawals before shanghai'')
      else if IsShanghai (config s) time \<and> withdrawals = None
        then Some (InvalidParamsError ''missing withdrawals list'')
      else None)"

text \<open>
  The fast path \<open>getQuickPayloadStatusIfPossible\<close>. The result pairs the Go result
  \<open>(*PayloadStatus, error)\<close> with the calls made on the header downloader.
\<close>

definition quickStatus :: "EngineStatus \<Rightarrow> hash option \<Rightarrow> string option \<Rightarrow> PayloadStatus" where
  "quickStatus st lvh verr =
     \<lparr>Status = st, LatestValidHash = lvh, ValidationError = verr, CriticalError = None\<rparr>"

definition getQuickPayloadStatusIfPossible ::
  "Lib \<Rightarrow> World \<Rightarrow> EngineServer \<Rightarrow> hash \<Rightarrow> uint64 \<Rightarrow> hash \<Rightarrow> ForkChoiceState option \<Rightarrow> bool \<Rightarrow>
   (error + PayloadStatus option) \<times> hd_call list" where
  "getQuickPayloadStatusIfPossible lib w s blockHash blockNumber parentHash forkchoiceMessage newPayload =
    (case TerminalTotalDifficulty (config s) of
       None \<Rightarrow> (Inl (Errorf ''not a proof-of-stake chain''), [])
     | Some ttd \<Rightarrow>
    (case hd w of
       None \<Rightarrow> (Inl (Errorf ''headerdownload is nil''), [])
     | Some h \<Rightarrow>
    (case BeginRo w 0 of
       Inl err \<Rightarrow> (Inl err, [])
     | Inr tx \<Rightarrow>
    if (case forkchoiceMessage of
          None \<Rightarrow> False
        | Some m \<Rightarrow> FinalizedBlockHash m = ReadForkchoiceFinalized tx \<and>
                    HeadHash m = ReadForkchoiceHead tx \<and>
                    SafeBlockHash m = ReadForkchoiceSafe tx)
    then (Inr (Some (quickStatus ValidStatus (Some blockHash) None)), [])
    else
    (case ReadHeaderByHash tx blockHash of
       Inl err \<Rightarrow> (Inl err, [])
     | Inr header \<Rightarrow>
    (case (if newPayload
           then (case ReadHeaderByHash tx parentHash of
                   Inl err \<Rightarrow> Inl err
                 | Inr parent \<Rightarrow>
                     (case ReadTdByHash tx parentHash of
                        Inl err \<Rightarrow> Inl err
                      | Inr td \<Rightarrow> Inr (parent, td)))
           else (case ReadTdByHash tx blockHash of
                   Inl err \<Rightarrow> Inl err
                 | Inr td \<Rightarrow> Inr (None, td))) of
       Inl err \<Rightarrow> (Inl err, [])
     | Inr (parent, td) \<Rightarrow>
    if (case td of None \<Rightarrow> False | Some t \<Rightarrow> t < ttd)
    then (Inr (Some (quickStatus InvalidStatus (Some 0) None)), [])
    else if \<not> POSSync h
    then (Inr (Some (quickStatus SyncingStatus None None)), [])
    else
    (case (case header of
             None \<Rightarrow> Inr 0
           | Some hdr \<Rightarrow> CanonicalHash tx (bigUint64 (hNumber hdr))) of
       Inl err \<Rightarrow> (Inl err, [])
     | Inr canonicalHash \<Rightarrow>
    (case (case parent of
             None \<Rightarrow> None
           | Some p \<Rightarrow>
               if newPayload \<and> blockNumber \<noteq> bigUint64 (hNumber p) + 1 then Some p else None) of
       Some p \<Rightarrow>
         (Inr (Some (quickStatus InvalidStatus (Some (HeaderHash lib p))
                       (Some ''invalid block number''))),
          [ReportBadHeaderPoS blockHash (HeaderHash lib p)])
     | None \<Rightarrow>
    (let (bad, lastValidHash) =
           (let (bad0, lvh0) = IsBadHeaderPoS h blockHash in
            if bad0 then (bad0, lvh0)
            else if newPayload then IsBadHeaderPoS h parentHash
            else (bad0, lvh0))
     in
    if bad
    then (Inr (Some (quickStatus InvalidStatus (Some lastValidHash) None)),
          [ReportBadHeaderPoS blockHash lastValidHash])
    else if newPayload \<and> header \<noteq> None \<and> canonicalHash = blockHash
    then (Inr (Some (quickStatus ValidStatus (Some blockHash) None)), [])
    else if newPayload \<and> parent = None \<and> PosStatus h \<noteq> Idle
    then (Inr (Some (quickStatus SyncingStatus None None)), [])
    else if \<not> newPayload \<and> header = None \<and> PosStatus h \<noteq> Idle
    then (Inr (Some (quickStatus SyncingStatus None None)), [])
    else if \<not> newPayload \<and> blockHash \<noteq> ReadHeadBlockHash tx \<and> canonicalHash = blockHash
    then (Inr (Some (quickStatus ValidStatus (Some blockHash) None)), [])
    else if stageLoopIsBusy h
    then (Inr (Some (quickStatus SyncingStatus None None)), [])
    else (Inr None, [])))))))))"

text \<open>
  The header \<open>newPayload\<close> rebuilds from the envelope (lines 141 to 184 of the server).
  \<open>copy(bloom[:], req.LogsBloom)\<close> fills a 256-byte array from the slice;
  \<open>big.NewInt(int64(req.BlockNumber))\<close> reads the number as a signed 64-bit value;
  \<open>merge.ProofOfStakeDifficulty\<close> and \<open>merge.ProofOfStakeNonce\<close> are zero.
\<close>

definition payloadWithdrawals :: "ExecutionPayload \<Rightarrow> StateVersion \<Rightarrow> Withdrawal list option" where
  "payloadWithdrawals req version = (if version \<ge> CapellaVersion then Withdrawals req else None)"

definition payloadHeader :: "Lib \<Rightarrow> ExecutionPayload \<Rightarrow> StateVersion \<Rightarrow> Header" where
  "payloadHeader lib req version =
     \<lparr>hParentHash = ParentHash req,
      hUncleHash = EmptyUncleHash lib,
      hCoinbase = FeeRecipient req,
      hRoot = StateRoot req,
      hTxHash = DeriveShaTransactions lib (Transactions req),
      hReceiptHash = ReceiptsRoot req,
      hBloom = take 256 (LogsBloom req) @ replicate (256 - length (LogsBloom req)) 0,
      hDifficulty = 0,
      hNumber = sint (BlockNumber req),
      hGasLimit = GasLimit req,
      hGasUsed = GasUsed req,
      hTime = Timestamp req,
      hExtra = ExtraData req,
      hMixDigest = PrevRandao req,
      hNonce = 0,
      hBaseFee = BaseFeePerGas req,
      hWithdrawalsHash =
        (case payloadWithdrawals req version of
           None \<Rightarrow> None
         | Some ws \<Rightarrow> Some (DeriveShaWithdrawals lib ws)),
      hDataGasUsed = (if version \<ge> DenebVersion then DataGasUsed req else None),
      hExcessDataGas = (if version \<ge> DenebVersion then ExcessDataGas req else None)\<rparr>"

text \<open>
  \<open>newPayload\<close>. The second component lists the calls made on the header downloader;
  \<open>AddPayloadRequest\<close> is the hand-over of the block to the importer.
\<close>

definition newPayload ::
  "Lib \<Rightarrow> World \<Rightarrow> EngineServer \<Rightarrow> ExecutionPayload \<Rightarrow> StateVersion \<Rightarrow>
   PayloadStatus outcome \<times> hd_call list" where
  "newPayload lib w s req version =
    (let txs = Transactions req;
         header = payloadHeader lib req version;
         withdrawals = payloadWithdrawals req version
     in
    (case checkWithdrawalsPresence s (hTime header) withdrawals of
       Some err \<Rightarrow> (Err err, [])
     | None \<Rightarrow>
    if \<not> IsCancun (config s) (hTime header) \<and>
       (hDataGasUsed header \<noteq> None \<or> hExcessDataGas header \<noteq> None)
    then (Err (InvalidParamsError ''dataGasUsed/excessDataGas present before Cancun''), [])
    else if IsCancun (config s) (hTime header) \<and>
       (hDataGasUsed header = None \<or> hExcessDataGas header = None)
    then (Err (InvalidParamsError ''dataGasUsed/excessDataGas missing''), [])
    else
    (let blockHash = BlockHash req in
    if HeaderHash lib header \<noteq> blockHash
    then (Ok (quickStatus InvalidStatus None (Some ''invalid block hash'')), [])
    else if list_ex (TypedTransactionMarshalledAsRlpString lib) (Transactions req)
    then (Ok (quickStatus InvalidStatus None (Some ''typed txn marshalled as RLP string'')), [])
    else
    (case DecodeTransactions lib txs of
       Inl err \<Rightarrow> (Ok (quickStatus InvalidStatus None (Some err)), [])
     | Inr transactions \<Rightarrow>
    (let block = NewBlockFromStorage blockHash header transactions [] withdrawals in
    (case getQuickPayloadStatusIfPossible lib w s blockHash (BlockNumber req)
            (hParentHash header) None True of
       (Inl err, calls) \<Rightarrow> (Err err, calls)
     | (Inr (Some possibleStatus), calls) \<Rightarrow> (Ok possibleStatus, calls)
     | (Inr None, calls) \<Rightarrow>
    (case hd w of
       None \<Rightarrow> (Panics, calls)
     | Some h \<Rightarrow>
    (case PayloadStatusCh h of
       None \<Rightarrow> (Blocks, calls @ [AddPayloadRequest block])
     | Some payloadStatus \<Rightarrow>
    (case CriticalError payloadStatus of
       Some err \<Rightarrow> (Err err, calls @ [AddPayloadRequest block])
     | None \<Rightarrow> (Ok payloadStatus, calls @ [AddPayloadRequest block]))))))))))"

subsection \<open>ForkchoiceUpdated and the builder registry\<close>

text \<open>
  \<open>common.SortedKeys\<close> (its code is not part of these sources): the keys of the map in
  ascending numeric order.
\<close>

definition SortedKeys :: "(uint64 \<times> 'v) list \<Rightarrow> uint64 list" where
  "SortedKeys m = sort (map fst m)"

text \<open>
  The loop of \<open>evictOldBuilders\<close>:
  \<open>for i := 0; i <= len(s.builders)-engine_helpers.MaxBuilders; i++ { delete(s.builders, ids[i]) }\<close>.
  The condition reads the length of the map as it is at that iteration. The result is the
  map when the loop ends and whether it ended normally; \<open>False\<close> is the panic of
  \<open>ids[i]\<close> out of range.
\<close>

function evictLoop ::
  "int \<Rightarrow> uint64 list \<Rightarrow> nat \<Rightarrow> (uint64 \<times> BlockBuilder) list \<Rightarrow> (uint64 \<times> BlockBuilder) list \<times> bool" where
  "evictLoop maxBuilders ids i bs =
     (if int i \<le> int (length bs) - maxBuilders
      then (if i < length ids
            then evictLoop maxBuilders ids (Suc i) (AList.delete (ids ! i) bs)
            else (bs, False))
      else (bs, True))"
  by pat_completeness auto
termination
proof (relation "measure (\<lambda>(m, ids, i, bs). nat (int (length bs) - m + 1 - int i))")
  show "wf (measure (\<lambda>(m, ids, i, bs). nat (int (length bs) - m + 1 - int i)))"
    by simp
next
  fix maxBuilders :: int and ids :: "uint64 list" and i :: nat
    and bs :: "(uint64 \<times> BlockBuilder) list"
  assume "int i \<le> int (length bs) - maxBuilders"
  moreover have "length (AList.delete (ids ! i) bs) \<le> length bs"
    by (simp add: AList.delete_eq)
  ultimately show "((maxBuilders, ids, Suc i, AList.delete (ids ! i) bs), (maxBuilders, ids, i, bs))
      \<in> measure (\<lambda>(m, ids, i, bs). nat (int (length bs) - m + 1 - int i))"
    by simp
qed

declare evictLoop.simps [simp del]

definition evictOldBuilders :: "Lib \<Rightarrow> EngineServer \<Rightarrow> EngineServer \<times> bool" where
  "evictOldBuilders lib s =
     (let ids = SortedKeys (builders s);
          (bs, finished) = evictLoop (MaxBuilders lib) ids 0 (builders s)
      in (s\<lparr>builders := bs\<rparr>, finished))"

text \<open>
  The parameter record \<open>forkchoiceUpdated\<close> builds from the attributes (lines 560 to
  569): the withdrawals are taken from the attributes from Capella on.
\<close>

definition buildParameters ::
  "EngineServer \<Rightarrow> ForkChoiceState \<Rightarrow> PayloadAttributes \<Rightarrow> StateVersion \<Rightarrow> BlockBuilderParameters" where
  "buildParameters s forkChoice payloadAttributes version =
     \<lparr>bpParentHash = HeadHash forkChoice,
      bpTimestamp = paTimestamp payloadAttributes,
      bpPrevRandao = paPrevRandao payloadAttributes,
      bpSuggestedFeeRecipient = paSuggestedFeeRecipient payloadAttributes,
      bpWithdrawals =
        (if version \<ge> CapellaVersion then paWithdrawals payloadAttributes else None),
      bpPayloadId = payloadId s\<rparr>"

text \<open>
  The first part of \<open>forkchoiceUpdated\<close> (lines 497 to 522): the status of the
  forkchoice, from the fast path or else from the importer.
\<close>

definition forkchoiceStatus ::
  "Lib \<Rightarrow> World \<Rightarrow> EngineServer \<Rightarrow> ForkChoiceState \<Rightarrow> PayloadStatus outcome \<times> hd_call list" where
  "forkchoiceStatus lib w s forkChoice =
    (case getQuickPayloadStatusIfPossible lib w s (HeadHash forkChoice) 0 0 (Some forkChoice) False of
       (Inl err, calls) \<Rightarrow> (Err err, calls)
     | (Inr (Some status), calls) \<Rightarrow> (Ok status, calls)
     | (Inr None, calls) \<Rightarrow>
    (case hd w of
       None \<Rightarrow> (Panics, calls)
     | Some h \<Rightarrow>
    (case PayloadStatusCh h of
       None \<Rightarrow> (Blocks, calls @ [AddForkChoiceRequest forkChoice])
     | Some statusDeref \<Rightarrow>
    (case CriticalError statusDeref of
       Some err \<Rightarrow> (Err err, calls @ [AddForkChoiceRequest forkChoice])
     | None \<Rightarrow> (Ok statusDeref, calls @ [AddForkChoiceRequest forkChoice])))))"

text \<open>
  The last part of \<open>forkchoiceUpdated\<close> (lines 529 to 602), reached with a \<open>VALID\<close>
  status and attributes: the checks, the duplicate test
  \<open>reflect.DeepEqual(s.lastParameters, &param)\<close>, and the new builder. \<open>BeginRo w 1\<close>
  is the second transaction of the call, the classifier having opened the first.
  \<open>*headNumber\<close> panics when the head number is missing; a missing head header
  (\<open>headHeader\<close> is \<open>nil\<close>) is taken to panic as well, at \<open>headHeader.Hash()\<close>
  or at the latest at \<open>headHeader.Time\<close>. In both cases nothing is built.
\<close>

definition startBuild ::
  "Lib \<Rightarrow> World \<Rightarrow> EngineServer \<Rightarrow> ForkChoiceState \<Rightarrow> PayloadStatus \<Rightarrow> PayloadAttributes \<Rightarrow>
   StateVersion \<Rightarrow> ForkChoiceUpdatedResponse outcome \<times> EngineServer" where
  "startBuild lib w s forkChoice status payloadAttributes version =
    (if \<not> proposing s
     then (Err (Errorf ''execution layer not running as a proposer. enable proposer by taking out the --proposer.disable flag on startup''), s)
     else
    (case BeginRo w 1 of
       Inl err \<Rightarrow> (Err err, s)
     | Inr tx2 \<Rightarrow>
    (let headHash = ReadHeadBlockHash tx2 in
    (case ReadHeaderNumber tx2 headHash of
       None \<Rightarrow> (Panics, s)
     | Some headNumber \<Rightarrow>
    (case ReadHeader tx2 headHash headNumber of
       None \<Rightarrow> (Panics, s)
     | Some headHeader \<Rightarrow>
    if HeaderHash lib headHeader \<noteq> HeadHash forkChoice
    then (Ok \<lparr>fcuPayloadStatus = Some status, fcuPayloadId = None\<rparr>, s)
    else if hTime headHeader \<ge> paTimestamp payloadAttributes
    then (Err InvalidPayloadAttributesErr, s)
    else
    (let param = buildParameters s forkChoice payloadAttributes version in
    (case checkWithdrawalsPresence s (paTimestamp payloadAttributes) (bpWithdrawals param) of
       Some err \<Rightarrow> (Err err, s)
     | None \<Rightarrow>
    if lastParameters s = Some param
    then (Ok \<lparr>fcuPayloadStatus = Some (quickStatus ValidStatus (Some headHash) None),
              fcuPayloadId = Some (convertPayloadId (payloadId s))\<rparr>, s)
    else
    (case evictOldBuilders lib s of
       (s1, False) \<Rightarrow> (Panics, s1)
     | (s1, True) \<Rightarrow>
    (let newId = payloadId s1 + 1;
         param' = param\<lparr>bpPayloadId := newId\<rparr>;
         s2 = s1\<lparr>payloadId := newId,
                 lastParameters := Some param',
                 builders := AList.update newId (NewBlockBuilder param') (builders s1)\<rparr>
     in (Ok \<lparr>fcuPayloadStatus = Some (quickStatus ValidStatus (Some headHash) None),
              fcuPayloadId = Some (convertPayloadId newId)\<rparr>, s2))))))))))"

text \<open>
  \<open>forkchoiceUpdated\<close>: the response, the calls made on the header downloader, and the
  server afterwards.
\<close>

definition forkchoiceUpdated ::
  "Lib \<Rightarrow> World \<Rightarrow> EngineServer \<Rightarrow> ForkChoiceState \<Rightarrow> PayloadAttributes option \<Rightarrow> StateVersion \<Rightarrow>
   ForkChoiceUpdatedResponse outcome \<times> hd_call list \<times> EngineServer" where
  "forkchoiceUpdated lib w s forkchoiceState payloadAttributes version =
    (let forkChoice = \<lparr>HeadHash = HeadHash forkchoiceState,
                       SafeBlockHash = SafeBlockHash forkchoiceState,
                       FinalizedBlockHash = FinalizedBlockHash forkchoiceState\<rparr>
     in
    (case forkchoiceStatus lib w s forkChoice of
       (Err err, calls) \<Rightarrow> (Err err, calls, s)
     | (Panics, calls) \<Rightarrow> (Panics, calls, s)
     | (Blocks, calls) \<Rightarrow> (Blocks, calls, s)
     | (Ok status, calls) \<Rightarrow>
    (case payloadAttributes of
       None \<Rightarrow> (Ok \<lparr>fcuPayloadStatus = Some status, fcuPayloadId = None\<rparr>, calls, s)
     | Some attrs \<Rightarrow>
    if Status status \<noteq> ValidStatus
    then (Ok \<lparr>fcuPayloadStatus = Some status, fcuPayloadId = None\<rparr>, calls, s)
    else
    (case startBuild lib w s forkChoice status attrs version of
       (r, s') \<Rightarrow> (r, calls, s')))))"

definition ForkchoiceUpdatedV1 ::
  "Lib \<Rightarrow> World \<Rightarrow> EngineServer \<Rightarrow> ForkChoiceState \<Rightarrow> PayloadAttributes option \<Rightarrow>
   ForkChoiceUpdatedResponse outcome \<times> hd_call list \<times> EngineServer" where
  "ForkchoiceUpdatedV1 lib w e forkChoiceState payloadAttributes =
     forkchoiceUpdated lib w e forkChoiceState payloadAttributes BellatrixVersion"

definition ForkchoiceUpdatedV2 ::
  "Lib \<Rightarrow> World \<Rightarrow> EngineServer \<Rightarrow> ForkChoiceState \<Rightarrow> PayloadAttributes option \<Rightarrow>
   ForkChoiceUpdatedResponse outcome \<times> hd_call list \<times> EngineServer" where
  "ForkchoiceUpdatedV2 lib w e forkChoiceState payloadAttributes =
     forkchoiceUpdated lib w e forkChoiceState payloadAttributes CapellaVersion"

definition NewPayloadV1 ::
  "Lib \<Rightarrow> World \<Rightarrow> EngineServer \<Rightarrow> ExecutionPayload \<Rightarrow> PayloadStatus outcome \<times> hd_call list" where
  "NewPayloadV1 lib w e payload = newPayload lib w e payload BellatrixVersion"

definition NewPayloadV2 ::
  "Lib \<Rightarrow> World \<Rightarrow> EngineServer \<Rightarrow> ExecutionPayload \<Rightarrow> PayloadStatus outcome \<times> hd_call list" where
  "NewPayloadV2 lib w e payload = newPayload lib w e payload CapellaVersion"

definition NewPayloadV3 ::
  "Lib \<Rightarrow> World \<Rightarrow> EngineServer \<Rightarrow> ExecutionPayload \<Rightarrow> PayloadStatus outcome \<times> hd_call list" where
  "NewPayloadV3 lib w e payload = newPayload lib w e payload DenebVersion"

text \<open>A sequence of \<open>forkchoiceUpdated\<close> calls, each in its own world, run in order.\<close>

fun runForkchoiceUpdates ::
  "Lib \<Rightarrow> EngineServer \<Rightarrow> (World \<times> ForkChoiceState \<times> PayloadAttributes option \<times> StateVersion) list \<Rightarrow>
   EngineServer" where
  "runForkchoiceUpdates lib s [] = s"
| "runForkchoiceUpdates lib s ((w, fcs, attrs, version) # calls) =
     runForkchoiceUpdates lib (snd (snd (forkchoiceUpdated lib w s fcs attrs version))) calls"

subsection \<open>Payload bodies by range\<close>

record ExecutionPayloadBodyV1 =
  bodyTransactions :: "bytes list"
  bodyWithdrawals :: "Withdrawal list option"

text \<open>
  The loop of \<open>extractPayloadBodyFromBlock\<close> over the transactions: the first
  \<open>MarshalBinary\<close> that fails ends it with that error.
\<close>

fun marshalTransactions :: "Transaction list \<Rightarrow> error + bytes list" where
  "marshalTransactions [] = Inr []"
| "marshalTransactions (tx # txs) =
     (case MarshalBinary tx of
        Inl err \<Rightarrow> Inl err
      | Inr buf \<Rightarrow>
          (case marshalTransactions txs of
             Inl err \<Rightarrow> Inl err
           | Inr bdTxs \<Rightarrow> Inr (buf # bdTxs)))"

definition extractPayloadBodyFromBlock :: "Block option \<Rightarrow> error + ExecutionPayloadBodyV1 option" where
  "extractPayloadBodyFromBlock block =
     (case block of
        None \<Rightarrow> Inr None
      | Some b \<Rightarrow>
          (case marshalTransactions (bTransactions b) of
             Inl err \<Rightarrow> Inl err
           | Inr bdTxs \<Rightarrow>
               Inr (Some \<lparr>bodyTransactions = bdTxs, bodyWithdrawals = bWithdrawals b\<rparr>)))"

text \<open>
  The loop of \<open>getPayloadBodiesByRange\<close>,
  \<open>for i := uint64(0); i < count; i++\<close>, with the bodies collected so far.
\<close>

function bodiesByRangeLoop ::
  "Tx \<Rightarrow> uint64 \<Rightarrow> uint64 \<Rightarrow> uint64 \<Rightarrow> ExecutionPayloadBodyV1 option list \<Rightarrow>
   error + ExecutionPayloadBodyV1 option list" where
  "bodiesByRangeLoop tx start count i bodies =
     (if i < count
      then (case ReadCanonicalHash tx (start + i) of
              Inl err \<Rightarrow> Inl err
            | Inr h \<Rightarrow>
                if h = 0 then Inr bodies
                else (case BlockWithSenders tx h (start + i) of
                        Inl err \<Rightarrow> Inl err
                      | Inr block \<Rightarrow>
                          (case extractPayloadBodyFromBlock block of
                             Inl err \<Rightarrow> Inl err
                           | Inr body \<Rightarrow>
                               bodiesByRangeLoop tx start count (i + 1) (bodies @ [body]))))
      else Inr bodies)"
  by pat_completeness auto
termination
proof (relation "measure (\<lambda>(tx, start, count, i, bodies). unat count - unat i)")
  show "wf (measure (\<lambda>(tx, start, count, i, bodies). unat count - unat i))"
    by simp
next
  fix tx :: Tx and start count i :: uint64
    and bodies :: "ExecutionPayloadBodyV1 option list"
    and h :: hash and block :: "Block option" and body :: "ExecutionPayloadBodyV1 option"
  assume less: "i < count"
  then have "unat (i + 1) = Suc (unat i)"
    by unat_arith
  moreover from less have "unat i < unat count"
    by (simp add: word_less_nat_alt)
  ultimately show "((tx, start, count, i + 1, bodies @ [body]), (tx, start, count, i, bodies))
      \<in> measure (\<lambda>(tx, start, count, i, bodies). unat count - unat i)"
    by simp
qed

declare bodiesByRangeLoop.simps [simp del]

definition getPayloadBodiesByRange ::
  "World \<Rightarrow> uint64 \<Rightarrow> uint64 \<Rightarrow> ExecutionPayloadBodyV1 option list outcome" where
  "getPayloadBodiesByRange w start count =
     (case BeginRo w 0 of
        Inl err \<Rightarrow> Err err
      | Inr tx \<Rightarrow>
          (case bodiesByRangeLoop tx start count 0 [] of
             Inl err \<Rightarrow> Err err
           | Inr bodies \<Rightarrow> Ok bodies))"

text \<open>
  \<open>GetPayloadBodiesByRangeV1\<close>. The message of the first error is kept as the format
  string of \<open>fmt.Sprintf\<close>; the rendering of its two arguments is left out.
\<close>

definition GetPayloadBodiesByRangeV1 ::
  "World \<Rightarrow> uint64 \<Rightarrow> uint64 \<Rightarrow> ExecutionPayloadBodyV1 option list outcome" where
  "GetPayloadBodiesByRangeV1 w start count =
     (if start = 0 \<or> count = 0
      then Err (InvalidParamsError ''invalid start or count, start: %v count: %v'')
      else if count > 1024 then Err TooLargeRequestErr
      else getPayloadBodiesByRange w start count)"

subsection \<open>GetPayload\<close>

record BlobsBundleV1 =
  bbCommitments :: "bytes list"
  bbProofs :: "bytes list"
  bbBlobs :: "bytes list"

record GetPayloadResponse =
  gprExecutionPayload :: ExecutionPayload
  gprBlockValue :: "256 word"
  gprBlobsBundle :: BlobsBundleV1

text \<open>
  \<open>blockValue\<close>: the sum, in 256-bit arithmetic, of gas used times effective tip over
  the transactions. \<open>br.Receipts[i]\<close> panics (\<open>None\<close>) when the receipts are fewer
  than the transactions.
\<close>

fun blockValueLoop ::
  "Transaction list \<Rightarrow> Receipt list \<Rightarrow> 256 word \<Rightarrow> 256 word \<Rightarrow> 256 word option" where
  "blockValueLoop [] receipts baseFee blockValue = Some blockValue"
| "blockValueLoop (tx # txs) [] baseFee blockValue = None"
| "blockValueLoop (tx # txs) (r # receipts) baseFee blockValue =
     blockValueLoop txs receipts baseFee
       (blockValue + ucast (rGasUsed r) * GetEffectiveGasTip tx baseFee)"

definition blockValue :: "BlockWithReceipts \<Rightarrow> 256 word \<Rightarrow> 256 word option" where
  "blockValue br baseFee = blockValueLoop (bTransactions (brBlock br)) (brReceipts br) baseFee 0"

text \<open>
  The loop of \<open>getPayload\<close> over the blob transactions. \<open>blobTxType\<close> is the constant
  \<open>types.BlobTxType\<close>. The messages of the two errors are kept as their format strings.
\<close>

fun blobsBundleLoop :: "byte \<Rightarrow> Transaction list \<Rightarrow> BlobsBundleV1 \<Rightarrow> error + BlobsBundleV1" where
  "blobsBundleLoop blobTxType [] blobsBundle = Inr blobsBundle"
| "blobsBundleLoop blobTxType (tx # txs) blobsBundle =
     (if Type tx \<noteq> blobTxType then blobsBundleLoop blobTxType txs blobsBundle
      else (case asBlobTxWrapper tx of
              None \<Rightarrow> Inl (Errorf ''expected blob transaction to be type BlobTxWrapper, got: %T'')
            | Some blobTx \<Rightarrow>
                (let lenCheck = length (GetDataHashes blobTx) in
                 if lenCheck \<noteq> length (Commitments blobTx) \<or> lenCheck \<noteq> length (Proofs blobTx) \<or>
                    lenCheck \<noteq> length (Blobs blobTx)
                 then Inl (Errorf ''tx %d in block %s has inconsistent commitments (%d) / proofs (%d) / blobs (%d) / versioned hashes (%d)'')
                 else blobsBundleLoop blobTxType txs
                        \<lparr>bbCommitments = bbCommitments blobsBundle @ Commitments blobTx,
                         bbProofs = bbProofs blobsBundle @ Proofs blobTx,
                         bbBlobs = bbBlobs blobsBundle @ Blobs blobTx\<rparr>)))"

text \<open>
  \<open>getPayload\<close>. \<open>marshalTransactionsBinary\<close> is \<open>types.MarshalTransactionsBinary\<close>,
  whose code is not part of these sources. \<open>SetFromBig\<close> keeps the low 256 bits of the
  base fee; a block without base fee makes it dereference \<open>nil\<close>.
\<close>

definition getPayload ::
  "(Transaction list \<Rightarrow> error + bytes list) \<Rightarrow> byte \<Rightarrow> World \<Rightarrow> EngineServer \<Rightarrow> uint64 \<Rightarrow>
   GetPayloadResponse outcome" where
  "getPayload marshalTransactionsBinary blobTxType w s pid =
    (if \<not> proposing s
     then Err (Errorf ''execution layer not running as a proposer. enable proposer by taking out the --proposer.disable flag on startup'')
     else if TerminalTotalDifficulty (config s) = None
     then Err (Errorf ''not a proof-of-stake chain'')
     else
    (case map_of (builders s) pid of
       None \<Rightarrow> Err UnknownPayloadErr
     | Some builder \<Rightarrow>
    (case Stop w builder of
       Inl err \<Rightarrow> Err err
     | Inr blockWithReceipts \<Rightarrow>
    (let block = brBlock blockWithReceipts;
         header = bHeader block
     in
    (case hBaseFee header of
       None \<Rightarrow> Panics
     | Some fee \<Rightarrow>
    (let baseFee = (word_of_int fee :: 256 word) in
    (case marshalTransactionsBinary (bTransactions block) of
       Inl err \<Rightarrow> Err err
     | Inr txs \<Rightarrow>
    (let dataGas = (hDataGasUsed header \<noteq> None \<and> hExcessDataGas header \<noteq> None);
         payload =
           \<lparr>ParentHash = hParentHash header,
            FeeRecipient = hCoinbase header,
            StateRoot = hRoot header,
            ReceiptsRoot = hReceiptHash header,
            LogsBloom = hBloom header,
            PrevRandao = hMixDigest header,
            BlockNumber = bigUint64 (hNumber header),
            GasLimit = hGasLimit header,
            GasUsed = hGasUsed header,
            Timestamp = hTime header,
            ExtraData = hExtra header,
            BaseFeePerGas = hBaseFee header,
            BlockHash = bHash block,
            Transactions = txs,
            Withdrawals = bWithdrawals block,
            DataGasUsed = (if dataGas then hDataGasUsed header else None),
            ExcessDataGas = (if dataGas then hExcessDataGas header else None)\<rparr>
     in
    (case blockValue blockWithReceipts baseFee of
       None \<Rightarrow> Panics
     | Some val \<Rightarrow>
    (case blobsBundleLoop blobTxType (bTransactions block)
            \<lparr>bbCommitments = [], bbProofs = [], bbBlobs = []\<rparr> of
       Inl err \<Rightarrow> Err err
     | Inr blobsBundle \<Rightarrow>
         Ok \<lparr>gprExecutionPayload = payload, gprBlockValue = val,
             gprBlobsBundle = blobsBundle\<rparr>))))))))))"

definition GetPayloadV1 ::
  "(Transaction list \<Rightarrow> error + bytes list) \<Rightarrow> byte \<Rightarrow> World \<Rightarrow> EngineServer \<Rightarrow> bytes \<Rightarrow>
   ExecutionPayload outcome" where
  "GetPayloadV1 marshalTransactionsBinary blobTxType w e pid =
     (case Uint64 pid of
        None \<Rightarrow> Panics
      | Some decodedPayloadId \<Rightarrow>
          (case getPayload marshalTransactionsBinary blobTxType w e decodedPayloadId of
             Ok response \<Rightarrow> Ok (gprExecutionPayload response)
           | Err err \<Rightarrow> Err err
           | Panics \<Rightarrow> Panics
           | Blocks \<Rightarrow> Blocks))"

definition GetPayloadV2 ::
  "(Transaction list \<Rightarrow> error + bytes list) \<Rightarrow> byte \<Rightarrow> World \<Rightarrow> EngineServer \<Rightarrow> bytes \<Rightarrow>
   GetPayloadResponse outcome" where
  "GetPayloadV2 marshalTransactionsBinary blobTxType w e payloadID =
     (case Uint64 payloadID of
        None \<Rightarrow> Panics
      | Some decodedPayloadId \<Rightarrow>
          getPayload marshalTransactionsBinary blobTxType w e decodedPayloadId)"

definition GetPayloadV3 ::
  "(Transaction list \<Rightarrow> error + bytes list) \<Rightarrow> byte \<Rightarrow> World \<Rightarrow> EngineServer \<Rightarrow> bytes \<Rightarrow>
   GetPayloadResponse outcome" where
  "GetPayloadV3 marshalTransactionsBinary blobTxType w e payloadID =
     (case Uint64 payloadID of
        None \<Rightarrow> Panics
      | Some decodedPayloadId \<Rightarrow>
          getPayload marshalTransactionsBinary blobTxType w e decodedPayloadId)"

subsection \<open>The consensus-side RPC client\<close>

text \<open>
  In the client an error is observed through its text (\<open>err.Error()\<close>), so an error is
  its text here and \<open>None\<close> is \<open>nil\<close>. \<open>statusText\<close> is the string behind an
  \<open>EngineStatus\<close>.
\<close>

definition statusText :: "EngineStatus \<Rightarrow> string" where
  "statusText st =
     (case st of
        SyncingStatus \<Rightarrow> ''SYNCING''
      | ValidStatus \<Rightarrow> ''VALID''
      | InvalidStatus \<Rightarrow> ''INVALID''
      | InvalidBlockHashStatus \<Rightarrow> ''INVALID_BLOCK_HASH''
      | AcceptedStatus \<Rightarrow> ''ACCEPTED'')"

definition checkPayloadStatus :: "PayloadStatus option \<Rightarrow> string option" where
  "checkPayloadStatus payloadStatus =
     (case payloadStatus of
        None \<Rightarrow> Some ''empty payloadStatus''
      | Some st \<Rightarrow>
          (case ValidationError st of
             Some validationError \<Rightarrow> Some validationError
           | None \<Rightarrow>
               if Status st \<noteq> ValidStatus \<and> Status st \<noteq> AcceptedStatus
               then Some (''status: '' @ statusText (Status st))
               else None))"

text \<open>
  \<open>ExecutionClientRpc.ForkChoiceUpdate\<close>. \<open>callContext\<close> stands for
  \<open>cc.client.CallContext\<close> with the method \<open>ForkChoiceUpdatedV1\<close>: for a request it
  gives the error of the call and the response as the call filled it.
  \<open>errContextExceeded\<close> is the constant of that name, declared outside these sources.
  The three tests of \<open>err\<close> are in the order of the source.
\<close>

definition ForkChoiceUpdate ::
  "string \<Rightarrow> (ForkChoiceState \<Rightarrow> string option \<times> ForkChoiceUpdatedResponse) \<Rightarrow> hash \<Rightarrow> hash \<Rightarrow>
   string option" where
  "ForkChoiceUpdate errContextExceeded callContext finalized head =
     (let forkChoiceRequest =
            \<lparr>HeadHash = head, SafeBlockHash = head, FinalizedBlockHash = finalized\<rparr>;
          (err, forkChoiceResp) = callContext forkChoiceRequest
      in
      case err of
        Some e \<Rightarrow>
          Some (''execution Client RPC failed to retrieve ForkChoiceUpdate response, err: '' @ e)
      | None \<Rightarrow>
          if (case err of None \<Rightarrow> False | Some e \<Rightarrow> e = errContextExceeded) then None
          else if err \<noteq> None then err
          else checkPayloadStatus (fcuPayloadStatus forkChoiceResp))"

subsection \<open>A small chain for concrete runs\<close>

text \<open>
  A configuration with Shanghai at time 100, Cancun at time 200 and terminal total
  difficulty 1000; a store with the blocks 5 (hash 2, total difficulty 999) and 6 (hash 3,
  total difficulty 1000, the head); and stand-ins for the hash functions: the hash of a
  header is its parent hash plus one.
\<close>

definition ex_config :: Config where
  "ex_config =
     \<lparr>IsShanghai = (\<lambda>t. 100 \<le> t), IsCancun = (\<lambda>t. 200 \<le> t),
      TerminalTotalDifficulty = Some 1000\<rparr>"

definition ex_lib :: Lib where
  "ex_lib =
     \<lparr>HeaderHash = (\<lambda>h. hParentHash h + 1),
      DeriveShaTransactions = (\<lambda>txs. 0),
      DeriveShaWithdrawals = (\<lambda>ws. 0),
      TypedTransactionMarshalledAsRlpString = (\<lambda>txn. False),
      DecodeTransactions = (\<lambda>txs. Inr []),
      EmptyUncleHash = 0,
      MaxBuilders = 2\<rparr>"

definition ex_header :: "hash \<Rightarrow> int \<Rightarrow> uint64 \<Rightarrow> Header" where
  "ex_header parent number time =
     \<lparr>hParentHash = parent, hUncleHash = 0, hCoinbase = 0, hRoot = 0, hTxHash = 0,
      hReceiptHash = 0, hBloom = replicate 256 0, hDifficulty = 0, hNumber = number,
      hGasLimit = 0, hGasUsed = 0, hTime = time, hExtra = [], hMixDigest = 0, hNonce = 0,
      hBaseFee = None, hWithdrawalsHash = None, hDataGasUsed = None,
      hExcessDataGas = None\<rparr>"

text \<open>
  A transaction that marshals to the given bytes, and a withdrawal. Block 5 carries one
  transaction and one withdrawal, block 6 two transactions and no withdrawals list.
\<close>

definition ex_txn :: "bytes \<Rightarrow> Transaction" where
  "ex_txn raw =
     \<lparr>Type = 2, MarshalBinary = Inr raw, GetEffectiveGasTip = (\<lambda>baseFee. 0),
      asBlobTxWrapper = None\<rparr>"

definition ex_withdrawal :: Withdrawal where
  "ex_withdrawal = \<lparr>Index = 0, Validator = 1, Address = 2, Amount = 3\<rparr>"

definition ex_block :: "hash \<Rightarrow> int \<Rightarrow> uint64 \<Rightarrow> Block" where
  "ex_block parent number time =
     \<lparr>bHash = parent + 1, bHeader = ex_header parent number time,
      bTransactions = (if number = 5 then [ex_txn [2, 1]] else [ex_txn [2, 7], ex_txn [1]]),
      bUncles = [],
      bWithdrawals = (if number = 5 then Some [ex_withdrawal] else None)\<rparr>"

definition ex_tx :: Tx where
  "ex_tx =
     \<lparr>ReadForkchoiceFinalized = 1,
      ReadForkchoiceHead = 3,
      ReadForkchoiceSafe = 2,
      ReadHeaderByHash =
        (\<lambda>h. Inr (if h = 2 then Some (ex_header 1 5 30)
                   else if h = 3 then Some (ex_header 2 6 40) else None)),
      ReadTdByHash =
        (\<lambda>h. Inr (if h = 2 then Some 999 else if h = 3 then Some 1000 else None)),
      CanonicalHash = (\<lambda>n. Inr (if n = 5 then 2 else if n = 6 then 3 else 0)),
      ReadHeadBlockHash = 3,
      ReadHeaderNumber = (\<lambda>h. if h = 2 then Some 5 else if h = 3 then Some 6 else None),
      ReadHeader =
        (\<lambda>h n. if h = 2 \<and> n = 5 then Some (ex_header 1 5 30)
                else if h = 3 \<and> n = 6 then Some (ex_header 2 6 40) else None),
      ReadCanonicalHash = (\<lambda>n. Inr (if n = 5 then 2 else if n = 6 then 3 else 0)),
      BlockWithSenders =
        (\<lambda>h n. Inr (if h = 2 \<and> n = 5 then Some (ex_block 1 5 30)
                     else if h = 3 \<and> n = 6 then Some (ex_block 2 6 40) else None)),
      BlockByHash =
        (\<lambda>h. Inr (if h = 2 then Some (ex_block 1 5 30)
                   else if h = 3 then Some (ex_block 2 6 40) else None))\<rparr>"

definition ex_hd :: HeaderDownload where
  "ex_hd =
     \<lparr>POSSync = True, PosStatus = Idle, IsBadHeaderPoS = (\<lambda>h. (False, 0)),
      WaitForWaiting_ok = True, WaitForWaiting_fires = False,
      PayloadStatusCh = Some (quickStatus ValidStatus (Some 4) None)\<rparr>"

definition ex_world :: World where
  "ex_world =
     \<lparr>hd = Some ex_hd, BeginRo = (\<lambda>k. Inr ex_tx),
      Stop = (\<lambda>b. Inl (Errorf ''no block''))\<rparr>"

definition ex_server :: EngineServer where
  "ex_server = NewEngineServer ex_config True"

definition ex_payload :: "uint64 \<Rightarrow> hash \<Rightarrow> Withdrawal list option \<Rightarrow> ExecutionPayload" where
  "ex_payload time stated ws =
     \<lparr>ParentHash = 3, FeeRecipient = 0, StateRoot = 0, ReceiptsRoot = 0, LogsBloom = [],
      PrevRandao = 0, BlockNumber = 7, GasLimit = 0, GasUsed = 0, Timestamp = time,
      ExtraData = [], BaseFeePerGas = None, BlockHash = stated, Transactions = [],
      Withdrawals = ws, DataGasUsed = None, ExcessDataGas = None\<rparr>"

definition ex_marshal :: "Transaction list \<Rightarrow> error + bytes list" where
  "ex_marshal txs = Inr []"

definition ex_fcs :: ForkChoiceState where
  "ex_fcs = \<lparr>HeadHash = 3, SafeBlockHash = 2, FinalizedBlockHash = 1\<rparr>"

definition ex_attrs :: "uint64 \<Rightarrow> PayloadAttributes" where
  "ex_attrs t =
     \<lparr>paTimestamp = t, paPrevRandao = 17, paSuggestedFeeRecipient = 171, paWithdrawals = None\<rparr>"

definition ex_built :: "uint64 \<Rightarrow> uint64 \<Rightarrow> BlockBuilderParameters" where
  "ex_built t n =
     \<lparr>bpParentHash = 3, bpTimestamp = t, bpPrevRandao = 17, bpSuggestedFeeRecipient = 171,
      bpWithdrawals = None, bpPayloadId = n\<rparr>"

definition ex_calls :: "(World \<times> ForkChoiceState \<times> PayloadAttributes option \<times> StateVersion) list" where
  "ex_calls =
     [(ex_world, ex_fcs, Some (ex_attrs 50), CapellaVersion),
      (ex_world, ex_fcs, Some (ex_attrs 51), CapellaVersion),
      (ex_world, ex_fcs, Some (ex_attrs 52), CapellaVersion)]"

definition ex_after :: "uint64 \<Rightarrow> uint64 \<Rightarrow> (uint64 \<times> BlockBuilder) list \<Rightarrow> EngineServer" where
  "ex_after t n bs = ex_server\<lparr>payloadId := n, lastParameters := Some (ex_built t n), builders := bs\<rparr>"

section \<open>Properties\<close>

subsection \<open>Payload id encoding\<close>

lemma upt_8: "[0..<8] = [0, 1, 2, 3, 4, 5, 6, 7]"
  by (simp add: upt_rec)

lemma convertPayloadId_bytes:
  "convertPayloadId v =
     [ucast (drop_bit 56 v), ucast (drop_bit 48 v), ucast (drop_bit 40 v), ucast (drop_bit 32 v),
      ucast (drop_bit 24 v), ucast (drop_bit 16 v), ucast (drop_bit 8 v), ucast v]"
  by (simp add: convertPayloadId_def PutUint64_def numeral_eq_Suc)

lemma byte_ranges:
  "n < (64::nat) \<Longrightarrow>
     n < 8 \<or> (8 \<le> n \<and> n < 16) \<or> (16 \<le> n \<and> n < 24) \<or> (24 \<le> n \<and> n < 32) \<or>
     (32 \<le> n \<and> n < 40) \<or> (40 \<le> n \<and> n < 48) \<or> (48 \<le> n \<and> n < 56) \<or> (56 \<le> n \<and> n < 64)"
  by arith

lemma bytes_reassemble:
  "(ucast (ucast v :: byte) OR push_bit 8 (ucast (ucast (drop_bit 8 v) :: byte)) OR
    push_bit 16 (ucast (ucast (drop_bit 16 v) :: byte)) OR
    push_bit 24 (ucast (ucast (drop_bit 24 v) :: byte)) OR
    push_bit 32 (ucast (ucast (drop_bit 32 v) :: byte)) OR
    push_bit 40 (ucast (ucast (drop_bit 40 v) :: byte)) OR
    push_bit 48 (ucast (ucast (drop_bit 48 v) :: byte)) OR
    push_bit 56 (ucast (ucast (drop_bit 56 v) :: byte)) :: uint64) = v"
proof (rule bit_eqI)
  fix n
  show "bit (ucast (ucast v :: byte) OR push_bit 8 (ucast (ucast (drop_bit 8 v) :: byte)) OR
          push_bit 16 (ucast (ucast (drop_bit 16 v) :: byte)) OR
          push_bit 24 (ucast (ucast (drop_bit 24 v) :: byte)) OR
          push_bit 32 (ucast (ucast (drop_bit 32 v) :: byte)) OR
          push_bit 40 (ucast (ucast (drop_bit 40 v) :: byte)) OR
          push_bit 48 (ucast (ucast (drop_bit 48 v) :: byte)) OR
          push_bit 56 (ucast (ucast (drop_bit 56 v) :: byte)) :: uint64) n = bit v n"
  proof (cases "n < 64")
    case True
    from byte_ranges [OF True] show ?thesis
      by (elim disjE conjE) (simp_all add: bit_simps less_diff_conv2)
  next
    case False
    then show ?thesis
      by (simp add: bit_simps bit_word_iff_drop_bit_and not_less)
  qed
qed

lemma Uint64_convertPayloadId: "Uint64 (convertPayloadId v) = Some v"
  by (simp add: convertPayloadId_bytes Uint64_def bytes_reassemble)

text \<open>
  Claim C9. For every 64-bit payload id, \<open>convertPayloadId\<close> produces exactly 8 bytes,
  byte \<open>i\<close> being bits \<open>8 * (7 - i)\<close> .. \<open>8 * (7 - i) + 7\<close> of the counter (most
  significant byte first), and the decode used by GetPayload, \<open>binary.BigEndian.Uint64\<close>,
  gives the id back.
\<close>

theorem C9_payload_id_roundtrip:
  "length (convertPayloadId pid) = 8 \<and>
   convertPayloadId pid = map (\<lambda>i. ucast (drop_bit (8 * (7 - i)) pid)) [0..<8] \<and>
   Uint64 (convertPayloadId pid) = Some pid"
  by (simp add: Uint64_convertPayloadId) (simp add: convertPayloadId_bytes upt_8)

subsection \<open>NewPayload: hash mismatch\<close>

text \<open>
  Claim C1, as the code has it. For every payload that passes the fork gating of
  \<open>newPayload\<close> (the presence of the withdrawals and of the data-gas fields agrees with
  Shanghai and Cancun at the payload timestamp) and whose rebuilt header hashes to a value
  other than the stated block hash, \<open>newPayload\<close> returns, without error, the status
  \<open>INVALID\<close> with no latest valid hash and the validation error "invalid block hash",
  and makes no call on the header downloader: nothing is handed to the importer.
\<close>

theorem C1_hash_mismatch_invalid:
  assumes "checkWithdrawalsPresence s (Timestamp req) (payloadWithdrawals req version) = None"
    and "if IsCancun (config s) (Timestamp req)
         then hDataGasUsed (payloadHeader lib req version) \<noteq> None \<and>
              hExcessDataGas (payloadHeader lib req version) \<noteq> None
         else hDataGasUsed (payloadHeader lib req version) = None \<and>
              hExcessDataGas (payloadHeader lib req version) = None"
    and "HeaderHash lib (payloadHeader lib req version) \<noteq> BlockHash req"
  shows "newPayload lib w s req version =
     (Ok \<lparr>Status = InvalidStatus, LatestValidHash = None,
          ValidationError = Some ''invalid block hash'', CriticalError = None\<rparr>, [])"
proof -
  have t: "hTime (payloadHeader lib req version) = Timestamp req"
    by (simp add: payloadHeader_def)
  show ?thesis
    using assms unfolding newPayload_def Let_def t
    by (simp add: quickStatus_def split: if_splits)
qed

theorem C1_hash_mismatch_invalid_witness:
  "newPayload ex_lib ex_world ex_server (ex_payload 50 170 None) CapellaVersion =
     (Ok \<lparr>Status = InvalidStatus, LatestValidHash = None,
          ValidationError = Some ''invalid block hash'', CriticalError = None\<rparr>, [])"
  using C1_hash_mismatch_invalid [of ex_server "ex_payload 50 170 None" CapellaVersion ex_lib ex_world]
  by (simp add: ex_server_def NewEngineServer_def ex_config_def ex_payload_def ex_lib_def
      checkWithdrawalsPresence_def payloadWithdrawals_def payloadHeader_def
      CapellaVersion_def DenebVersion_def)

text \<open>
  The claim as stated fails twice. With the stated hash 170 against the rebuilt hash 4,
  the status returned is \<open>INVALID\<close>, not \<open>INVALID_BLOCK_HASH\<close>; and when the same
  payload is stamped after Shanghai and carries no withdrawals, the call stops earlier with
  the error \<open>INVALID_PARAMS\<close> and returns no status at all.
\<close>

theorem C1_counterexample:
  "HeaderHash ex_lib (payloadHeader ex_lib (ex_payload 50 170 None) CapellaVersion)
     \<noteq> BlockHash (ex_payload 50 170 None) \<and>
   fst (newPayload ex_lib ex_world ex_server (ex_payload 50 170 None) CapellaVersion) \<noteq>
     Ok \<lparr>Status = InvalidBlockHashStatus, LatestValidHash = None,
          ValidationError = Some ''invalid block hash'', CriticalError = None\<rparr> \<and>
   HeaderHash ex_lib (payloadHeader ex_lib (ex_payload 150 170 None) CapellaVersion)
     \<noteq> BlockHash (ex_payload 150 170 None) \<and>
   newPayload ex_lib ex_world ex_server (ex_payload 150 170 None) CapellaVersion =
     (Err (InvalidParamsError ''missing withdrawals list''), [])"
  by (simp add: newPayload_def ex_server_def NewEngineServer_def ex_config_def ex_payload_def
      ex_lib_def checkWithdrawalsPresence_def payloadWithdrawals_def payloadHeader_def
      CapellaVersion_def DenebVersion_def quickStatus_def)

subsection \<open>NewPayload: presence of the withdrawals\<close>

text \<open>
  Claim C6, as the code has it. \<open>newPayload\<close> takes the withdrawals from the payload
  only from Capella on (V2, V3); under V1 the field is ignored and the list is absent. For
  every payload, if the presence of that list disagrees with Shanghai at the payload
  timestamp (present before Shanghai, or absent when Shanghai is active), the call fails
  with \<open>INVALID_PARAMS\<close> and makes no call on the header downloader.
\<close>

theorem C6_withdrawals_presence:
  assumes "(\<not> IsShanghai (config s) (Timestamp req) \<and> payloadWithdrawals req version \<noteq> None) \<or>
           (IsShanghai (config s) (Timestamp req) \<and> payloadWithdrawals req version = None)"
  shows "newPayload lib w s req version =
     (Err (InvalidParamsError
        (if IsShanghai (config s) (Timestamp req) then ''missing withdrawals list''
         else ''withdrawals before shanghai'')), [])"
proof -
  have t: "hTime (payloadHeader lib req version) = Timestamp req"
    by (simp add: payloadHeader_def)
  show ?thesis
    using assms unfolding newPayload_def Let_def t
    by (auto simp: checkWithdrawalsPresence_def)
qed

theorem C6_withdrawals_presence_witness:
  "newPayload ex_lib ex_world ex_server (ex_payload 150 4 None) CapellaVersion =
     (Err (InvalidParamsError ''missing withdrawals list''), []) \<and>
   newPayload ex_lib ex_world ex_server (ex_payload 50 4 (Some [])) CapellaVersion =
     (Err (InvalidParamsError ''withdrawals before shanghai''), [])"
  using C6_withdrawals_presence [of ex_server "ex_payload 150 4 None" CapellaVersion ex_lib ex_world]
    C6_withdrawals_presence [of ex_server "ex_payload 50 4 (Some [])" CapellaVersion ex_lib ex_world]
  by (simp add: ex_server_def NewEngineServer_def ex_config_def ex_payload_def
      payloadWithdrawals_def CapellaVersion_def)

text \<open>
  The claim as stated fails under V1: a payload stamped before Shanghai that carries a
  withdrawals field is not refused, the field is dropped and the block is handed to the
  importer.
\<close>

theorem C6_counterexample:
  "Withdrawals (ex_payload 50 4 (Some [])) \<noteq> None \<and>
   \<not> IsShanghai (config ex_server) (Timestamp (ex_payload 50 4 (Some []))) \<and>
   newPayload ex_lib ex_world ex_server (ex_payload 50 4 (Some [])) BellatrixVersion =
     (Ok \<lparr>Status = ValidStatus, LatestValidHash = Some 4, ValidationError = None,
          CriticalError = None\<rparr>,
      [AddPayloadRequest
         (NewBlockFromStorage 4 (payloadHeader ex_lib (ex_payload 50 4 (Some [])) BellatrixVersion)
            [] [] None)])"
  by (simp add: newPayload_def ex_server_def NewEngineServer_def ex_config_def ex_payload_def
      ex_lib_def checkWithdrawalsPresence_def payloadWithdrawals_def payloadHeader_def
      BellatrixVersion_def CapellaVersion_def DenebVersion_def quickStatus_def
      getQuickPayloadStatusIfPossible_def ex_world_def ex_hd_def ex_tx_def ex_header_def
      bigUint64_def stageLoopIsBusy_def NewBlockFromStorage_def)

subsection \<open>The status classifier\<close>

text \<open>
  Claim C7. On a proof-of-stake chain, when the classifier runs for a new payload, the
  store transaction opens and the two header reads succeed, and the total difficulty of
  the parent is known and strictly less than the terminal total difficulty, the classifier
  returns the status \<open>INVALID\<close> with the zero hash as latest valid hash.
\<close>

theorem C7_pre_ttd_invalid:
  assumes "TerminalTotalDifficulty (config s) = Some ttd"
    and "hd w = Some h"
    and "BeginRo w 0 = Inr tx"
    and "ReadHeaderByHash tx blockHash = Inr header"
    and "ReadHeaderByHash tx parentHash = Inr parent"
    and "ReadTdByHash tx parentHash = Inr (Some td)"
    and "td < ttd"
  shows "getQuickPayloadStatusIfPossible lib w s blockHash blockNumber parentHash None True =
     (Inr (Some \<lparr>Status = InvalidStatus, LatestValidHash = Some 0, ValidationError = None,
                  CriticalError = None\<rparr>), [])"
  using assms by (simp add: getQuickPayloadStatusIfPossible_def quickStatus_def)

theorem C7_pre_ttd_invalid_witness:
  "getQuickPayloadStatusIfPossible ex_lib ex_world ex_server 3 6 2 None True =
     (Inr (Some \<lparr>Status = InvalidStatus, LatestValidHash = Some 0, ValidationError = None,
                  CriticalError = None\<rparr>), [])"
  using C7_pre_ttd_invalid [of ex_server 1000 ex_world ex_hd ex_tx 3 "Some (ex_header 2 6 40)" 2
      "Some (ex_header 1 5 30)" 999 ex_lib 6]
  by (simp add: ex_server_def NewEngineServer_def ex_config_def ex_world_def ex_tx_def)

text \<open>
  Claim C3. On a proof-of-stake chain with the store transaction open, a forkchoice whose
  head, safe and finalized hashes equal the persisted ones makes the classifier return
  \<open>VALID\<close> with the head hash as latest valid hash; \<open>forkchoiceUpdated\<close> then makes
  no call on the header downloader, whatever the attributes, and without attributes it
  returns that status.
\<close>

theorem C3_repeated_forkchoice:
  assumes "TerminalTotalDifficulty (config s) = Some ttd"
    and "hd w = Some h"
    and "BeginRo w 0 = Inr tx"
    and "HeadHash fcs = ReadForkchoiceHead tx"
    and "SafeBlockHash fcs = ReadForkchoiceSafe tx"
    and "FinalizedBlockHash fcs = ReadForkchoiceFinalized tx"
  shows "getQuickPayloadStatusIfPossible lib w s (HeadHash fcs) 0 0 (Some fcs) False =
       (Inr (Some \<lparr>Status = ValidStatus, LatestValidHash = Some (HeadHash fcs),
                    ValidationError = None, CriticalError = None\<rparr>), []) \<and>
     fst (snd (forkchoiceUpdated lib w s fcs attrs version)) = [] \<and>
     forkchoiceUpdated lib w s fcs None version =
       (Ok \<lparr>fcuPayloadStatus =
              Some \<lparr>Status = ValidStatus, LatestValidHash = Some (HeadHash fcs),
                    ValidationError = None, CriticalError = None\<rparr>,
            fcuPayloadId = None\<rparr>, [], s)"
proof -
  have q: "getQuickPayloadStatusIfPossible lib w s (HeadHash fcs) 0 0 (Some fcs) False =
       (Inr (Some (quickStatus ValidStatus (Some (HeadHash fcs)) None)), [])"
    using assms by (simp add: getQuickPayloadStatusIfPossible_def)
  have r: "\<lparr>HeadHash = HeadHash fcs, SafeBlockHash = SafeBlockHash fcs,
             FinalizedBlockHash = FinalizedBlockHash fcs\<rparr> = fcs"
    by simp
  have st: "forkchoiceStatus lib w s fcs =
       (Ok (quickStatus ValidStatus (Some (HeadHash fcs)) None), [])"
    by (simp add: forkchoiceStatus_def q)
  have c: "fst (snd (forkchoiceUpdated lib w s fcs attrs version)) = []"
    unfolding forkchoiceUpdated_def Let_def r st
    by (simp split: option.splits prod.splits)
  have n: "forkchoiceUpdated lib w s fcs None version =
       (Ok \<lparr>fcuPayloadStatus = Some (quickStatus ValidStatus (Some (HeadHash fcs)) None),
            fcuPayloadId = None\<rparr>, [], s)"
    unfolding forkchoiceUpdated_def Let_def r st by simp
  from q c n show ?thesis by (simp add: quickStatus_def)
qed

theorem C3_repeated_forkchoice_witness:
  "getQuickPayloadStatusIfPossible ex_lib ex_world ex_server 3 0 0
       (Some \<lparr>HeadHash = 3, SafeBlockHash = 2, FinalizedBlockHash = 1\<rparr>) False =
       (Inr (Some \<lparr>Status = ValidStatus, LatestValidHash = Some 3,
                    ValidationError = None, CriticalError = None\<rparr>), []) \<and>
   forkchoiceUpdated ex_lib ex_world ex_server
       \<lparr>HeadHash = 3, SafeBlockHash = 2, FinalizedBlockHash = 1\<rparr> None CapellaVersion =
       (Ok \<lparr>fcuPayloadStatus =
              Some \<lparr>Status = ValidStatus, LatestValidHash = Some 3,
                    ValidationError = None, CriticalError = None\<rparr>,
            fcuPayloadId = None\<rparr>, [], ex_server)"
  using C3_repeated_forkchoice [of ex_server 1000 ex_world ex_hd ex_tx
      "\<lparr>HeadHash = 3, SafeBlockHash = 2, FinalizedBlockHash = 1\<rparr>" ex_lib None CapellaVersion]
  by (simp add: ex_server_def NewEngineServer_def ex_config_def ex_world_def ex_tx_def)

subsection \<open>The client's ForkChoiceUpdate\<close>

text \<open>
  Claim C2, on the code. When the JSON-RPC call of \<open>ForkChoiceUpdate\<close> fails with the
  error whose text is \<open>errContextExceeded\<close>, the first test of \<open>err\<close> returns it
  wrapped: the call does not return \<open>nil\<close>, and the branch that ignores timeouts is
  never reached.
\<close>

theorem C2_deadline_exceeded_returned:
  "ForkChoiceUpdate errContextExceeded (\<lambda>req. (Some errContextExceeded, resp)) finalized head =
     Some (''execution Client RPC failed to retrieve ForkChoiceUpdate response, err: '' @
           errContextExceeded) \<and>
   ForkChoiceUpdate errContextExceeded (\<lambda>req. (Some errContextExceeded, resp)) finalized head
     \<noteq> None"
  by (simp add: ForkChoiceUpdate_def)

subsection \<open>Payload bodies by range\<close>

lemma bodiesByRangeLoop_collects:
  "ReadCanonicalHash tx = (\<lambda>n. Inr (canon n)) \<Longrightarrow>
   BlockWithSenders tx = (\<lambda>h n. Inr (blk h n)) \<Longrightarrow>
   (\<And>h n. extractPayloadBodyFromBlock (blk h n) = Inr (body h n)) \<Longrightarrow>
   bodiesByRangeLoop tx start count i bodies =
     Inr (bodies @ map (\<lambda>n. body (canon n) n)
        (takeWhile (\<lambda>n. canon n \<noteq> 0) (map (\<lambda>k. start + of_nat k) [unat i..<unat count])))"
proof (induction tx start count i bodies rule: bodiesByRangeLoop.induct)
  case (1 tx start count i bodies)
  note rd = "1.prems"(1) and bw = "1.prems"(2) and ex = "1.prems"(3)
  show ?case
  proof (cases "i < count")
    case False
    then have "unat count \<le> unat i" by (simp add: word_less_nat_alt)
    with False show ?thesis
      by (subst bodiesByRangeLoop.simps) simp
  next
    case True
    then have lt: "unat i < unat count" by (simp add: word_less_nat_alt)
    from True have suc: "unat (i + 1) = Suc (unat i)" by unat_arith
    have upt: "[unat i..<unat count] = unat i # [unat (i + 1)..<unat count]"
      using lt suc by (simp add: upt_rec)
    show ?thesis
    proof (cases "canon (start + i) = 0")
      case True
      with \<open>i < count\<close> show ?thesis
        by (subst bodiesByRangeLoop.simps) (simp add: rd upt)
    next
      case False
      have ih: "bodiesByRangeLoop tx start count (i + 1) (bodies @ [body (canon (start + i)) (start + i)]) =
         Inr ((bodies @ [body (canon (start + i)) (start + i)]) @ map (\<lambda>n. body (canon n) n)
          (takeWhile (\<lambda>n. canon n \<noteq> 0) (map (\<lambda>k. start + of_nat k) [unat (i + 1)..<unat count])))"
      proof (rule "1.IH" [OF \<open>i < count\<close> _ False _ _ rd bw ex])
        show "ReadCanonicalHash tx (start + i) = Inr (canon (start + i))" by (simp add: rd)
        show "BlockWithSenders tx (canon (start + i)) (start + i) = Inr (blk (canon (start + i)) (start + i))"
          by (simp add: bw)
        show "extractPayloadBodyFromBlock (blk (canon (start + i)) (start + i)) = Inr (body (canon (start + i)) (start + i))"
          by (rule ex)
      qed
      show ?thesis
        using \<open>i < count\<close> False
        by (subst bodiesByRangeLoop.simps) (simp add: rd bw ex ih upt)
    qed
  qed
qed


lemma marshalTransactions_raw:
  "\<forall>t\<in>set txs. MarshalBinary t = Inr (raw t) \<Longrightarrow> marshalTransactions txs = Inr (map raw txs)"
  by (induction txs) simp_all

lemma extractPayloadBodyFromBlock_raw:
  assumes "\<And>b. block = Some b \<Longrightarrow> \<forall>t\<in>set (bTransactions b). MarshalBinary t = Inr (raw t)"
  shows "extractPayloadBodyFromBlock block =
     Inr (case block of
            None \<Rightarrow> None
          | Some b \<Rightarrow>
              Some \<lparr>bodyTransactions = map raw (bTransactions b),
                    bodyWithdrawals = bWithdrawals b\<rparr>)"
proof (cases block)
  case None
  then show ?thesis by (simp add: extractPayloadBodyFromBlock_def)
next
  case (Some b)
  with assms have "marshalTransactions (bTransactions b) = Inr (map raw (bTransactions b))"
    by (intro marshalTransactions_raw) simp
  with Some show ?thesis by (simp add: extractPayloadBodyFromBlock_def)
qed

text \<open>
  Claim C8. \<open>GetPayloadBodiesByRangeV1\<close> fails with \<open>INVALID_PARAMS\<close> when
  \<open>start\<close> or \<open>count\<close> is 0, otherwise fails with \<open>TOO_LARGE_REQUEST\<close> when
  \<open>count\<close> exceeds 1024, and otherwise, when the reads of the store succeed and every
  transaction of the blocks read marshals (to the bytes \<open>raw t\<close>), returns the bodies of
  the blocks at the numbers \<open>start\<close>, \<open>start + 1\<close>, ... below \<open>start + count\<close>, in
  order, up to the first number whose canonical hash is zero, with nothing appended for
  the numbers from that gap on. The body of a block is the list of its marshalled
  transactions, in the order of the block, with the withdrawals of the block; a canonical
  hash whose block is missing gives a null body.
\<close>

theorem C8_payload_bodies_by_range:
  "(start = 0 \<or> count = 0 \<longrightarrow>
      GetPayloadBodiesByRangeV1 w start count =
        Err (InvalidParamsError ''invalid start or count, start: %v count: %v'')) \<and>
   (start \<noteq> 0 \<and> count > 1024 \<longrightarrow>
      GetPayloadBodiesByRangeV1 w start count = Err TooLargeRequestErr) \<and>
   (start \<noteq> 0 \<and> count \<noteq> 0 \<and> count \<le> 1024 \<and> BeginRo w 0 = Inr tx \<and>
    ReadCanonicalHash tx = (\<lambda>n. Inr (canon n)) \<and>
    BlockWithSenders tx = (\<lambda>h n. Inr (blk h n)) \<and>
    (\<forall>h n b. blk h n = Some b \<longrightarrow>
       (\<forall>t\<in>set (bTransactions b). MarshalBinary t = Inr (raw t))) \<longrightarrow>
      GetPayloadBodiesByRangeV1 w start count =
        Ok (map (\<lambda>n. case blk (canon n) n of
                        None \<Rightarrow> None
                      | Some b \<Rightarrow>
                          Some \<lparr>bodyTransactions = map raw (bTransactions b),
                                bodyWithdrawals = bWithdrawals b\<rparr>)
              (takeWhile (\<lambda>n. canon n \<noteq> 0) (map (\<lambda>k. start + of_nat k) [0..<unat count]))))"
proof (intro conjI impI)
  assume "start = 0 \<or> count = 0"
  then show "GetPayloadBodiesByRangeV1 w start count =
        Err (InvalidParamsError ''invalid start or count, start: %v count: %v'')"
    by (auto simp: GetPayloadBodiesByRangeV1_def)
next
  assume "start \<noteq> 0 \<and> count > 1024"
  moreover from this have "count \<noteq> 0" by auto
  ultimately show "GetPayloadBodiesByRangeV1 w start count = Err TooLargeRequestErr"
    by (simp add: GetPayloadBodiesByRangeV1_def)
next
  let ?body = "\<lambda>h n. case blk h n of
                        None \<Rightarrow> None
                      | Some b \<Rightarrow>
                          Some \<lparr>bodyTransactions = map raw (bTransactions b),
                                bodyWithdrawals = bWithdrawals b\<rparr>"
  assume a: "start \<noteq> 0 \<and> count \<noteq> 0 \<and> count \<le> 1024 \<and> BeginRo w 0 = Inr tx \<and>
    ReadCanonicalHash tx = (\<lambda>n. Inr (canon n)) \<and>
    BlockWithSenders tx = (\<lambda>h n. Inr (blk h n)) \<and>
    (\<forall>h n b. blk h n = Some b \<longrightarrow>
       (\<forall>t\<in>set (bTransactions b). MarshalBinary t = Inr (raw t)))"
  then have ex: "extractPayloadBodyFromBlock (blk h n) = Inr (?body h n)" for h n
    by (intro extractPayloadBodyFromBlock_raw) blast
  from a have rd: "ReadCanonicalHash tx = (\<lambda>n. Inr (canon n))"
    and bw: "BlockWithSenders tx = (\<lambda>h n. Inr (blk h n))"
    by simp_all
  have "bodiesByRangeLoop tx start count 0 [] =
     Inr ([] @ map (\<lambda>n. ?body (canon n) n)
        (takeWhile (\<lambda>n. canon n \<noteq> 0) (map (\<lambda>k. start + of_nat k) [unat (0::uint64)..<unat count])))"
    by (rule bodiesByRangeLoop_collects [OF rd bw ex])
  with a show "GetPayloadBodiesByRangeV1 w start count =
        Ok (map (\<lambda>n. ?body (canon n) n)
              (takeWhile (\<lambda>n. canon n \<noteq> 0) (map (\<lambda>k. start + of_nat k) [0..<unat count])))"
    by (simp add: GetPayloadBodiesByRangeV1_def getPayloadBodiesByRange_def not_less)
qed

theorem C8_payload_bodies_by_range_witness:
  "GetPayloadBodiesByRangeV1 ex_world 0 3 =
     Err (InvalidParamsError ''invalid start or count, start: %v count: %v'') \<and>
   GetPayloadBodiesByRangeV1 ex_world 1 1025 = Err TooLargeRequestErr \<and>
   GetPayloadBodiesByRangeV1 ex_world 5 3 =
     Ok [Some \<lparr>bodyTransactions = [[2, 1]], bodyWithdrawals = Some [ex_withdrawal]\<rparr>,
         Some \<lparr>bodyTransactions = [[2, 7], [1]], bodyWithdrawals = None\<rparr>]"
proof -
  let ?canon = "\<lambda>n::uint64. if n = 5 then 2 else if n = 6 then 3 else (0::hash)"
  let ?blk = "\<lambda>(h::hash) (n::uint64). if h = 2 \<and> n = 5 then Some (ex_block 1 5 30)
              else if h = 3 \<and> n = 6 then Some (ex_block 2 6 40) else None"
  let ?raw = "\<lambda>t. case MarshalBinary t of Inr buf \<Rightarrow> buf | Inl err \<Rightarrow> []"
  have a: "GetPayloadBodiesByRangeV1 ex_world 0 3 =
     Err (InvalidParamsError ''invalid start or count, start: %v count: %v'')"
    using C8_payload_bodies_by_range [of 0 3 ex_world, THEN conjunct1] by simp
  have b: "GetPayloadBodiesByRangeV1 ex_world 1 1025 = Err TooLargeRequestErr"
    using C8_payload_bodies_by_range [of 1 1025 ex_world, THEN conjunct2, THEN conjunct1] by simp
  have h1: "BeginRo ex_world 0 = Inr ex_tx" by (simp add: ex_world_def)
  have h2: "ReadCanonicalHash ex_tx = (\<lambda>n. Inr (?canon n))" by (simp add: ex_tx_def)
  have h3: "BlockWithSenders ex_tx = (\<lambda>h n. Inr (?blk h n))" by (simp add: ex_tx_def)
  have h4: "\<forall>h n b. ?blk h n = Some b \<longrightarrow>
       (\<forall>t\<in>set (bTransactions b). MarshalBinary t = Inr (?raw t))"
    by (auto simp: ex_block_def ex_txn_def split: if_splits)
  have h5: "(5::uint64) \<noteq> 0 \<and> (3::uint64) \<noteq> 0 \<and> (3::uint64) \<le> 1024" by simp
  have "GetPayloadBodiesByRangeV1 ex_world 5 3 =
        Ok (map (\<lambda>n. case ?blk (?canon n) n of
                        None \<Rightarrow> None
                      | Some b \<Rightarrow>
                          Some \<lparr>bodyTransactions = map ?raw (bTransactions b),
                                bodyWithdrawals = bWithdrawals b\<rparr>)
              (takeWhile (\<lambda>n. ?canon n \<noteq> 0) (map (\<lambda>k. 5 + of_nat k) [0..<unat (3::uint64)])))"
    using C8_payload_bodies_by_range [of 5 3 ex_world ex_tx ?canon ?blk ?raw,
        THEN conjunct2, THEN conjunct2] h1 h2 h3 h4 h5
    by blast
  moreover have "[0..<unat (3::uint64)] = [0, 1, 2]"
    by (simp add: upt_rec)
  ultimately have c: "GetPayloadBodiesByRangeV1 ex_world 5 3 =
     Ok [Some \<lparr>bodyTransactions = [[2, 1]], bodyWithdrawals = Some [ex_withdrawal]\<rparr>,
         Some \<lparr>bodyTransactions = [[2, 7], [1]], bodyWithdrawals = None\<rparr>]"
    by (simp add: ex_block_def ex_txn_def)
  from a b c show ?thesis by simp
qed

subsection \<open>Decoding the payload id in GetPayload\<close>

lemma byte_bit_high: "8 \<le> m \<Longrightarrow> \<not> bit (b::byte) m"
  by (auto dest: bit_imp_le_length)

lemma be_word_bytes:
  fixes b0 b1 b2 b3 b4 b5 b6 b7 :: byte
  defines "v \<equiv> (ucast b7 OR push_bit 8 (ucast b6) OR push_bit 16 (ucast b5) OR
                 push_bit 24 (ucast b4) OR push_bit 32 (ucast b3) OR
                 push_bit 40 (ucast b2) OR push_bit 48 (ucast b1) OR
                 push_bit 56 (ucast b0) :: uint64)"
  shows "ucast (drop_bit 56 v) = b0"
    and "ucast (drop_bit 48 v) = b1"
    and "ucast (drop_bit 40 v) = b2"
    and "ucast (drop_bit 32 v) = b3"
    and "ucast (drop_bit 24 v) = b4"
    and "ucast (drop_bit 16 v) = b5"
    and "ucast (drop_bit 8 v) = b6"
    and "ucast v = b7"
  unfolding v_def
  by (rule bit_eqI, simp add: bit_simps byte_bit_high)+

lemma take_8: "8 \<le> length p \<Longrightarrow> take 8 p = [p ! 0, p ! 1, p ! 2, p ! 3, p ! 4, p ! 5, p ! 6, p ! 7]"
  by (simp add: list_eq_iff_nth_eq nth_Cons' less_Suc_eq numeral_eq_Suc) 

lemma Uint64_take: "Uint64 (take 8 p) = Uint64 p"
  by (simp add: Uint64_def)

lemma convertPayloadId_Uint64:
  assumes "Uint64 p = Some v"
  shows "convertPayloadId v = take 8 p"
proof -
  from assms have len: "8 \<le> length p"
    by (simp add: Uint64_def split: if_splits)
  with assms have v: "v = ucast (p ! 7) OR push_bit 8 (ucast (p ! 6)) OR push_bit 16 (ucast (p ! 5)) OR
                 push_bit 24 (ucast (p ! 4)) OR push_bit 32 (ucast (p ! 3)) OR
                 push_bit 40 (ucast (p ! 2)) OR push_bit 48 (ucast (p ! 1)) OR
                 push_bit 56 (ucast (p ! 0))"
    by (simp only: Uint64_def not_less [symmetric] if_False option.inject)
  show ?thesis
    by (simp only: convertPayloadId_bytes take_8 [OF len] v be_word_bytes)
qed

text \<open>
  Claim C10. \<open>GetPayloadV1\<close>, \<open>GetPayloadV2\<close> and \<open>GetPayloadV3\<close> decode the id
  with \<open>binary.BigEndian.Uint64\<close> and no length check. On at least 8 bytes the decode
  is defined, depends on the first 8 bytes only (it is the value whose big-endian encoding
  they are), and the method is \<open>getPayload\<close> at that value; on fewer than 8 bytes the
  read panics, so the method panics instead of returning an error.
\<close>

theorem C10_getPayload_decode:
  "(8 \<le> length pid \<longrightarrow>
      (\<exists>v. Uint64 pid = Some v \<and> Uint64 (take 8 pid) = Some v \<and> convertPayloadId v = take 8 pid \<and>
           GetPayloadV1 mtb btt w e pid =
             (case getPayload mtb btt w e v of
                Ok response \<Rightarrow> Ok (gprExecutionPayload response)
              | Err err \<Rightarrow> Err err | Panics \<Rightarrow> Panics | Blocks \<Rightarrow> Blocks) \<and>
           GetPayloadV2 mtb btt w e pid = getPayload mtb btt w e v \<and>
           GetPayloadV3 mtb btt w e pid = getPayload mtb btt w e v)) \<and>
   (length pid < 8 \<longrightarrow>
      Uint64 pid = None \<and>
      GetPayloadV1 mtb btt w e pid = Panics \<and>
      GetPayloadV2 mtb btt w e pid = Panics \<and>
      GetPayloadV3 mtb btt w e pid = Panics)"
proof (intro conjI impI)
  assume len: "8 \<le> length pid"
  then obtain v where v: "Uint64 pid = Some v"
    by (simp add: Uint64_def)
  moreover from v have "Uint64 (take 8 pid) = Some v"
    by (simp add: Uint64_take)
  moreover from v have "convertPayloadId v = take 8 pid"
    by (rule convertPayloadId_Uint64)
  ultimately show "\<exists>v. Uint64 pid = Some v \<and> Uint64 (take 8 pid) = Some v \<and>
           convertPayloadId v = take 8 pid \<and>
           GetPayloadV1 mtb btt w e pid =
             (case getPayload mtb btt w e v of
                Ok response \<Rightarrow> Ok (gprExecutionPayload response)
              | Err err \<Rightarrow> Err err | Panics \<Rightarrow> Panics | Blocks \<Rightarrow> Blocks) \<and>
           GetPayloadV2 mtb btt w e pid = getPayload mtb btt w e v \<and>
           GetPayloadV3 mtb btt w e pid = getPayload mtb btt w e v"
    by (simp add: GetPayloadV1_def GetPayloadV2_def GetPayloadV3_def)
next
  assume "length pid < 8"
  then have "Uint64 pid = None"
    by (simp add: Uint64_def)
  then show "Uint64 pid = None"
    and "GetPayloadV1 mtb btt w e pid = Panics"
    and "GetPayloadV2 mtb btt w e pid = Panics"
    and "GetPayloadV3 mtb btt w e pid = Panics"
    by (simp_all add: GetPayloadV1_def GetPayloadV2_def GetPayloadV3_def)
qed

theorem C10_getPayload_decode_witness:
  "GetPayloadV2 ex_marshal 3 ex_world ex_server [0, 0, 0, 0, 0, 0, 0, 1, 9] =
     getPayload ex_marshal 3 ex_world ex_server 1 \<and>
   GetPayloadV2 ex_marshal 3 ex_world ex_server [0, 0, 1] = Panics"
proof -
  have "Uint64 [0, 0, 0, 0, 0, 0, 0, 1, 9] = Some 1"
    by (simp add: Uint64_def)
  moreover have "(8::nat) \<le> length [0, 0, 0, 0, 0, 0, 0, 1, 9 :: byte]"
    by simp
  ultimately have a: "GetPayloadV2 ex_marshal 3 ex_world ex_server [0, 0, 0, 0, 0, 0, 0, 1, 9] =
     getPayload ex_marshal 3 ex_world ex_server 1"
    using C10_getPayload_decode [of "[0, 0, 0, 0, 0, 0, 0, 1, 9]" ex_marshal 3 ex_world ex_server,
        THEN conjunct1]
    by auto
  have "length [0, 0, 1 :: byte] < 8" by simp
  then have b: "GetPayloadV2 ex_marshal 3 ex_world ex_server [0, 0, 1] = Panics"
    using C10_getPayload_decode [of "[0, 0, 1]" ex_marshal 3 ex_world ex_server, THEN conjunct2]
    by blast
  from a b show ?thesis by simp
qed

subsection \<open>The builder registry: duplicate build requests\<close>

lemma evictOldBuilders_fields:
  "evictOldBuilders lib s = (s1, fin) \<Longrightarrow>
     payloadId s1 = payloadId s \<and> lastParameters s1 = lastParameters s \<and>
     config s1 = config s \<and> proposing s1 = proposing s"
  by (auto simp: evictOldBuilders_def Let_def split: prod.splits)

lemma startBuild_payload_id:
  assumes "startBuild lib w s fc status attrs v = (Ok r, s')"
    and "fcuPayloadId r = Some pid"
  shows "(lastParameters s = Some (buildParameters s fc attrs v) \<and> s' = s \<and>
          pid = convertPayloadId (payloadId s)) \<or>
         (lastParameters s \<noteq> Some (buildParameters s fc attrs v) \<and>
          (\<exists>s1. evictOldBuilders lib s = (s1, True) \<and>
             s' = s1\<lparr>payloadId := payloadId s + 1,
                     lastParameters :=
                       Some ((buildParameters s fc attrs v)\<lparr>bpPayloadId := payloadId s + 1\<rparr>),
                     builders :=
                       AList.update (payloadId s + 1)
                         (NewBlockBuilder
                            ((buildParameters s fc attrs v)\<lparr>bpPayloadId := payloadId s + 1\<rparr>))
                         (builders s1)\<rparr> \<and>
             pid = convertPayloadId (payloadId s + 1)))"
proof (cases "lastParameters s = Some (buildParameters s fc attrs v)")
  case True
  with assms show ?thesis
    by (auto simp: startBuild_def Let_def
        split: if_splits sum.splits option.splits prod.splits bool.splits)
next
  case False
  obtain s1 fin where ev: "evictOldBuilders lib s = (s1, fin)"
    by (cases "evictOldBuilders lib s")
  from evictOldBuilders_fields [OF ev] have pid1: "payloadId s1 = payloadId s"
    by simp
  from assms False ev pid1 show ?thesis
    by (auto simp: startBuild_def Let_def
        split: if_splits sum.splits option.splits bool.splits)
qed

lemma forkchoiceUpdated_payload_id:
  assumes "forkchoiceUpdated lib w s fcs (Some attrs) v = (Ok r, calls, s')"
    and "fcuPayloadId r = Some pid"
  shows "(lastParameters s = Some (buildParameters s fcs attrs v) \<and> s' = s \<and>
          pid = convertPayloadId (payloadId s)) \<or>
         (lastParameters s \<noteq> Some (buildParameters s fcs attrs v) \<and>
          (\<exists>s1. evictOldBuilders lib s = (s1, True) \<and>
             s' = s1\<lparr>payloadId := payloadId s + 1,
                     lastParameters :=
                       Some ((buildParameters s fcs attrs v)\<lparr>bpPayloadId := payloadId s + 1\<rparr>),
                     builders :=
                       AList.update (payloadId s + 1)
                         (NewBlockBuilder
                            ((buildParameters s fcs attrs v)\<lparr>bpPayloadId := payloadId s + 1\<rparr>))
                         (builders s1)\<rparr> \<and>
             pid = convertPayloadId (payloadId s + 1)))"
proof -
  have r: "\<lparr>HeadHash = HeadHash fcs, SafeBlockHash = SafeBlockHash fcs,
             FinalizedBlockHash = FinalizedBlockHash fcs\<rparr> = fcs"
    by simp
  from assms obtain status where "startBuild lib w s fcs status attrs v = (Ok r, s')"
    unfolding forkchoiceUpdated_def Let_def r
    by (auto split: prod.splits outcome.splits if_splits)
  from startBuild_payload_id [OF this assms(2)] show ?thesis .
qed

text \<open>
  Claim C4. Take two successive \<open>forkchoiceUpdated\<close> calls with attributes that both
  return a payload id, and whose parameter records (parent hash, timestamp, prevRandao,
  fee recipient and withdrawals, built with the same payload id field) are equal. Then
  both return the same payload id and the second call leaves the server as it was: it
  makes no builder. The first call makes exactly one builder, stored under the next id,
  unless it repeats the parameters the server built last, in which case it makes none
  either and returns the current id.
\<close>

theorem C4_duplicate_build_request:
  assumes "forkchoiceUpdated lib w1 s0 fcs1 (Some attrs1) v1 = (Ok r1, calls1, s1)"
    and "fcuPayloadId r1 = Some id1"
    and "forkchoiceUpdated lib w2 s1 fcs2 (Some attrs2) v2 = (Ok r2, calls2, s2)"
    and "fcuPayloadId r2 = Some id2"
    and "buildParameters s0 fcs1 attrs1 v1 = buildParameters s0 fcs2 attrs2 v2"
  shows "id2 = id1 \<and> s2 = s1 \<and>
     (if lastParameters s0 = Some (buildParameters s0 fcs1 attrs1 v1)
      then s1 = s0 \<and> id1 = convertPayloadId (payloadId s0)
      else (\<exists>s'. evictOldBuilders lib s0 = (s', True) \<and>
              builders s1 =
                AList.update (payloadId s0 + 1)
                  (NewBlockBuilder
                     ((buildParameters s0 fcs1 attrs1 v1)\<lparr>bpPayloadId := payloadId s0 + 1\<rparr>))
                  (builders s') \<and>
              payloadId s1 = payloadId s0 + 1 \<and>
              id1 = convertPayloadId (payloadId s0 + 1)))"
proof -
  have bp: "\<And>s s' fcs attrs v. buildParameters s' fcs attrs v =
      (buildParameters s fcs attrs v)\<lparr>bpPayloadId := payloadId s'\<rparr>"
    by (simp add: buildParameters_def)
  note first = forkchoiceUpdated_payload_id [OF assms(1,2)]
  note second = forkchoiceUpdated_payload_id [OF assms(3,4)]
  show ?thesis
  proof (cases "lastParameters s0 = Some (buildParameters s0 fcs1 attrs1 v1)")
    case True
    with first have s1: "s1 = s0" and id1: "id1 = convertPayloadId (payloadId s0)"
      by auto
    from True assms(5) s1 have "lastParameters s1 = Some (buildParameters s1 fcs2 attrs2 v2)"
      by simp
    with second have "s2 = s1" and "id2 = convertPayloadId (payloadId s1)"
      by auto
    with True s1 id1 show ?thesis by simp
  next
    case False
    with first obtain s' where ev: "evictOldBuilders lib s0 = (s', True)"
      and s1: "s1 = s'\<lparr>payloadId := payloadId s0 + 1,
                     lastParameters :=
                       Some ((buildParameters s0 fcs1 attrs1 v1)\<lparr>bpPayloadId := payloadId s0 + 1\<rparr>),
                     builders :=
                       AList.update (payloadId s0 + 1)
                         (NewBlockBuilder
                            ((buildParameters s0 fcs1 attrs1 v1)\<lparr>bpPayloadId := payloadId s0 + 1\<rparr>))
                         (builders s')\<rparr>"
      and id1: "id1 = convertPayloadId (payloadId s0 + 1)"
      by auto
    from s1 have p1: "payloadId s1 = payloadId s0 + 1" by simp
    have "buildParameters s1 fcs2 attrs2 v2 =
        (buildParameters s0 fcs1 attrs1 v1)\<lparr>bpPayloadId := payloadId s0 + 1\<rparr>"
      using bp [of s1 fcs2 attrs2 v2 s0] assms(5) p1 by simp
    with s1 have "lastParameters s1 = Some (buildParameters s1 fcs2 attrs2 v2)"
      by simp
    with second have "s2 = s1" and "id2 = convertPayloadId (payloadId s1)"
      by auto
    with False ev s1 id1 p1 show ?thesis by auto
  qed
qed

lemmas ex_defs =
  ex_server_def NewEngineServer_def ex_config_def ex_world_def ex_tx_def ex_hd_def ex_lib_def
  ex_header_def ex_fcs_def ex_attrs_def ex_built_def

lemmas fcu_defs =
  forkchoiceUpdated_def forkchoiceStatus_def getQuickPayloadStatusIfPossible_def startBuild_def
  buildParameters_def checkWithdrawalsPresence_def evictOldBuilders_def SortedKeys_def
  quickStatus_def CapellaVersion_def Let_def

lemma ex_first_call:
  "forkchoiceUpdated ex_lib ex_world ex_server ex_fcs (Some (ex_attrs 50)) CapellaVersion =
     (Ok \<lparr>fcuPayloadStatus = Some (quickStatus ValidStatus (Some 3) None),
          fcuPayloadId = Some [0, 0, 0, 0, 0, 0, 0, 1]\<rparr>, [],
      ex_server\<lparr>payloadId := 1, lastParameters := Some (ex_built 50 1),
                builders := [(1, NewBlockBuilder (ex_built 50 1))]\<rparr>)"
  by (simp add: ex_defs fcu_defs evictLoop.simps convertPayloadId_bytes)

lemma ex_second_call:
  "forkchoiceUpdated ex_lib ex_world
      (ex_server\<lparr>payloadId := 1, lastParameters := Some (ex_built 50 1),
                builders := [(1, NewBlockBuilder (ex_built 50 1))]\<rparr>)
      ex_fcs (Some (ex_attrs 50)) CapellaVersion =
     (Ok \<lparr>fcuPayloadStatus = Some (quickStatus ValidStatus (Some 3) None),
          fcuPayloadId = Some [0, 0, 0, 0, 0, 0, 0, 1]\<rparr>, [],
      ex_server\<lparr>payloadId := 1, lastParameters := Some (ex_built 50 1),
                builders := [(1, NewBlockBuilder (ex_built 50 1))]\<rparr>)"
  by (simp add: ex_defs fcu_defs convertPayloadId_bytes)

theorem C4_duplicate_build_request_witness:
  "forkchoiceUpdated ex_lib ex_world ex_server ex_fcs (Some (ex_attrs 50)) CapellaVersion =
     (Ok \<lparr>fcuPayloadStatus = Some (quickStatus ValidStatus (Some 3) None),
          fcuPayloadId = Some [0, 0, 0, 0, 0, 0, 0, 1]\<rparr>, [],
      ex_server\<lparr>payloadId := 1, lastParameters := Some (ex_built 50 1),
                builders := [(1, NewBlockBuilder (ex_built 50 1))]\<rparr>) \<and>
   forkchoiceUpdated ex_lib ex_world
      (ex_server\<lparr>payloadId := 1, lastParameters := Some (ex_built 50 1),
                builders := [(1, NewBlockBuilder (ex_built 50 1))]\<rparr>)
      ex_fcs (Some (ex_attrs 50)) CapellaVersion =
     (Ok \<lparr>fcuPayloadStatus = Some (quickStatus ValidStatus (Some 3) None),
          fcuPayloadId = Some [0, 0, 0, 0, 0, 0, 0, 1]\<rparr>, [],
      ex_server\<lparr>payloadId := 1, lastParameters := Some (ex_built 50 1),
                builders := [(1, NewBlockBuilder (ex_built 50 1))]\<rparr>) \<and>
   (\<exists>s'. evictOldBuilders ex_lib ex_server = (s', True) \<and>
      [(1, NewBlockBuilder (ex_built 50 1))] =
        AList.update 1 (NewBlockBuilder (ex_built 50 1)) (builders s'))"
proof -
  have "fcuPayloadId \<lparr>fcuPayloadStatus = Some (quickStatus ValidStatus (Some 3) None),
          fcuPayloadId = Some [0, 0, 0, 0, 0, 0, 0, 1]\<rparr> = Some [0, 0, 0, 0, 0, 0, 0, 1]"
    by simp
  from C4_duplicate_build_request [OF ex_first_call this ex_second_call this refl]
  have "\<exists>s'. evictOldBuilders ex_lib ex_server = (s', True) \<and>
      [(1, NewBlockBuilder (ex_built 50 1))] =
        AList.update 1 (NewBlockBuilder (ex_built 50 1)) (builders s')"
    by (auto simp: ex_server_def NewEngineServer_def ex_fcs_def ex_attrs_def ex_built_def
        buildParameters_def CapellaVersion_def)
  with ex_first_call ex_second_call show ?thesis by simp
qed

subsection \<open>The builder registry: bound and eviction order\<close>

lemma length_delete_present:
  assumes "distinct (map fst bs)" and "k \<in> fst ` set bs"
  shows "Suc (length (AList.delete k bs)) = length bs"
proof -
  have "length (AList.delete k bs) = length (map fst (AList.delete k bs))"
    by simp
  also have "\<dots> = length (remove1 k (map fst bs))"
    using assms(1) by (simp only: AList.delete_keys distinct_remove1_removeAll)
  also have "\<dots> = length (map fst bs) - 1"
    using assms(2) by (simp add: length_remove1)
  finally show ?thesis
    using assms(2) by (cases bs) auto
qed

lemma length_update_le: "length (AList.update k v al) \<le> Suc (length al)"
  by (induction al) auto

lemma evictLoop_bounded:
  assumes "distinct (map fst bs)" and "int (length bs) \<le> M" and "1 \<le> M"
  shows "\<exists>bs'. evictLoop M (SortedKeys bs) 0 bs = (bs', True) \<and>
           distinct (map fst bs') \<and> int (length bs') \<le> M - 1"
proof (cases "int (length bs) < M")
  case True
  then have "evictLoop M (SortedKeys bs) 0 bs = (bs, True)"
    by (subst evictLoop.simps) simp
  with True assms(1) show ?thesis by simp
next
  case False
  with assms have len: "int (length bs) = M" and pos: "0 < length bs"
    by auto
  let ?ids = "SortedKeys bs"
  have "length ?ids = length bs"
    by (simp add: SortedKeys_def)
  with pos have "?ids ! 0 \<in> set ?ids"
    by (simp add: nth_mem)
  then have mem: "?ids ! 0 \<in> fst ` set bs"
    by (simp add: SortedKeys_def)
  from length_delete_present [OF assms(1) mem]
  have dl: "Suc (length (AList.delete (?ids ! 0) bs)) = length bs" .
  have "evictLoop M ?ids 0 bs = evictLoop M ?ids (Suc 0) (AList.delete (?ids ! 0) bs)"
    using len pos \<open>length ?ids = length bs\<close> by (subst evictLoop.simps) simp
  also have "\<dots> = (AList.delete (?ids ! 0) bs, True)"
    using len dl by (subst evictLoop.simps) simp
  finally show ?thesis
    using assms(1) len dl by (simp add: AList.distinct_delete)
qed

lemma startBuild_builders:
  assumes "distinct (map fst (builders s))"
    and "int (length (builders s)) \<le> MaxBuilders lib"
    and "1 \<le> MaxBuilders lib"
  shows "distinct (map fst (builders (snd (startBuild lib w s fc status attrs v)))) \<and>
     int (length (builders (snd (startBuild lib w s fc status attrs v)))) \<le> MaxBuilders lib"
proof -
  from evictLoop_bounded [OF assms] obtain bs' where
    ev: "evictLoop (MaxBuilders lib) (SortedKeys (builders s)) 0 (builders s) = (bs', True)"
    and d: "distinct (map fst bs')" and l: "int (length bs') \<le> MaxBuilders lib - 1"
    by blast
  have u: "int (length (AList.update k b bs')) \<le> MaxBuilders lib" for k b
    using length_update_le [of k b bs'] l by simp
  show ?thesis
    using assms(1,2) ev d u
    by (simp add: startBuild_def evictOldBuilders_def Let_def AList.distinct_update
        split: sum.splits option.splits)
qed

lemma forkchoiceUpdated_state:
  "snd (snd (forkchoiceUpdated lib w s fcs attrs v)) = s \<or>
   (\<exists>fc status a. snd (snd (forkchoiceUpdated lib w s fcs attrs v)) =
      snd (startBuild lib w s fc status a v))"
  by (auto simp: forkchoiceUpdated_def Let_def split: prod.splits outcome.splits option.splits)
    (metis snd_conv)

lemma forkchoiceUpdated_builders:
  assumes "distinct (map fst (builders s))"
    and "int (length (builders s)) \<le> MaxBuilders lib"
    and "1 \<le> MaxBuilders lib"
  shows "distinct (map fst (builders (snd (snd (forkchoiceUpdated lib w s fcs attrs v))))) \<and>
     int (length (builders (snd (snd (forkchoiceUpdated lib w s fcs attrs v))))) \<le> MaxBuilders lib"
  using forkchoiceUpdated_state [of lib w s fcs attrs v] assms(1,2) startBuild_builders [OF assms]
  by (elim disjE exE) simp_all

lemma runForkchoiceUpdates_builders:
  assumes "1 \<le> MaxBuilders lib"
  shows "distinct (map fst (builders s)) \<Longrightarrow> int (length (builders s)) \<le> MaxBuilders lib \<Longrightarrow>
     distinct (map fst (builders (runForkchoiceUpdates lib s calls))) \<and>
     int (length (builders (runForkchoiceUpdates lib s calls))) \<le> MaxBuilders lib"
proof (induction calls arbitrary: s)
  case Nil
  then show ?case by simp
next
  case (Cons c calls)
  obtain w fcs attrs v where c: "c = (w, fcs, attrs, v)"
    by (cases c)
  from forkchoiceUpdated_builders [OF Cons.prems assms, of w fcs attrs v]
  show ?case
    unfolding c runForkchoiceUpdates.simps
    by (intro Cons.IH) simp_all
qed

lemma evictLoop_removes_prefix:
  "\<exists>k\<ge>i. fst (evictLoop M ids i bs) = filter (\<lambda>(id, b). id \<notin> set (drop i (take k ids))) bs"
proof (induction M ids i bs rule: evictLoop.induct)
  case (1 M ids i bs)
  show ?case
  proof (cases "int i \<le> int (length bs) - M \<and> i < length ids")
    case True
    then have c1: "int i \<le> int (length bs) - M" and c2: "i < length ids"
      by simp_all
    from "1.IH" [OF c1 c2] obtain k where k: "Suc i \<le> k"
      and eq: "fst (evictLoop M ids (Suc i) (AList.delete (ids ! i) bs)) =
        filter (\<lambda>(id, b). id \<notin> set (drop (Suc i) (take k ids))) (AList.delete (ids ! i) bs)"
      by blast
    from k c2 have "i < length (take k ids)" by simp
    from Cons_nth_drop_Suc [OF this] k
    have dr: "drop i (take k ids) = ids ! i # drop (Suc i) (take k ids)"
      by simp
    have "fst (evictLoop M ids i bs) =
        fst (evictLoop M ids (Suc i) (AList.delete (ids ! i) bs))"
      using c1 c2 by (subst evictLoop.simps) simp
    also have "\<dots> = filter (\<lambda>(id, b). id \<notin> set (drop i (take k ids))) bs"
      unfolding eq dr by (auto simp: AList.delete_eq intro: filter_cong)
    finally show ?thesis
      using k by (intro exI [of _ k]) simp
  next
    case False
    then have "fst (evictLoop M ids i bs) = bs"
      by (subst evictLoop.simps) auto
    then show ?thesis
      by (intro exI [of _ i]) simp
  qed
qed

text \<open>
  Claim C5. With \<open>MaxBuilders\<close> at least 1, after any sequence of
  \<open>forkchoiceUpdated\<close> calls on a new server the registry has distinct keys and at most
  \<open>MaxBuilders\<close> entries; and \<open>evictOldBuilders\<close>, in any state, removes exactly the
  entries whose ids are the first \<open>k\<close> of the ids in ascending order, for some \<open>k\<close>:
  the numerically smallest ids go first.
\<close>

theorem C5_builders_bounded:
  assumes "1 \<le> MaxBuilders lib"
  shows "distinct (map fst (builders (runForkchoiceUpdates lib (NewEngineServer cfg prop) calls))) \<and>
     int (length (builders (runForkchoiceUpdates lib (NewEngineServer cfg prop) calls)))
       \<le> MaxBuilders lib \<and>
     (\<exists>k. builders (fst (evictOldBuilders lib s)) =
        filter (\<lambda>(id, b). id \<notin> set (take k (sort (map fst (builders s))))) (builders s))"
proof -
  have "distinct (map fst (builders (NewEngineServer cfg prop)))"
    and "int (length (builders (NewEngineServer cfg prop))) \<le> MaxBuilders lib"
    using assms by (simp_all add: NewEngineServer_def)
  from runForkchoiceUpdates_builders [OF assms this]
  have a: "distinct (map fst (builders (runForkchoiceUpdates lib (NewEngineServer cfg prop) calls))) \<and>
     int (length (builders (runForkchoiceUpdates lib (NewEngineServer cfg prop) calls)))
       \<le> MaxBuilders lib" .
  from evictLoop_removes_prefix [of 0 "MaxBuilders lib" "SortedKeys (builders s)" "builders s"]
  have b: "\<exists>k. builders (fst (evictOldBuilders lib s)) =
        filter (\<lambda>(id, b). id \<notin> set (take k (sort (map fst (builders s))))) (builders s)"
    by (auto simp: evictOldBuilders_def Let_def SortedKeys_def split: prod.splits)
  from a b show ?thesis by simp
qed

lemma ex_run_1:
  "snd (snd (forkchoiceUpdated ex_lib ex_world ex_server ex_fcs (Some (ex_attrs 50)) CapellaVersion)) =
     ex_after 50 1 [(1, NewBlockBuilder (ex_built 50 1))]"
  by (simp add: ex_first_call ex_after_def)

lemma ex_run_2:
  "snd (snd (forkchoiceUpdated ex_lib ex_world (ex_after 50 1 [(1, NewBlockBuilder (ex_built 50 1))])
      ex_fcs (Some (ex_attrs 51)) CapellaVersion)) =
     ex_after 51 2 [(1, NewBlockBuilder (ex_built 50 1)), (2, NewBlockBuilder (ex_built 51 2))]"
  by (simp add: ex_defs ex_after_def fcu_defs evictLoop.simps)

lemma ex_run_3:
  "snd (snd (forkchoiceUpdated ex_lib ex_world
      (ex_after 51 2 [(1, NewBlockBuilder (ex_built 50 1)), (2, NewBlockBuilder (ex_built 51 2))])
      ex_fcs (Some (ex_attrs 52)) CapellaVersion)) =
     ex_after 52 3 [(2, NewBlockBuilder (ex_built 51 2)), (3, NewBlockBuilder (ex_built 52 3))]"
  by (simp add: ex_defs ex_after_def fcu_defs evictLoop.simps)

lemma ex_run:
  "runForkchoiceUpdates ex_lib (NewEngineServer ex_config True) ex_calls =
     ex_after 52 3 [(2, NewBlockBuilder (ex_built 51 2)), (3, NewBlockBuilder (ex_built 52 3))]"
  using ex_run_1 ex_run_2 ex_run_3
  by (simp add: ex_calls_def ex_server_def)

theorem C5_builders_bounded_witness:
  "map fst (builders (runForkchoiceUpdates ex_lib (NewEngineServer ex_config True) ex_calls)) = [2, 3] \<and>
   int (length (builders (runForkchoiceUpdates ex_lib (NewEngineServer ex_config True) ex_calls)))
     \<le> MaxBuilders ex_lib \<and>
   builders (fst (evictOldBuilders ex_lib
      (ex_after 51 2 [(1, NewBlockBuilder (ex_built 50 1)), (2, NewBlockBuilder (ex_built 51 2))]))) =
     [(2, NewBlockBuilder (ex_built 51 2))]"
proof -
  have "1 \<le> MaxBuilders ex_lib"
    by (simp add: ex_lib_def)
  from C5_builders_bounded [OF this, of ex_config True ex_calls ex_server]
  have "int (length (builders (runForkchoiceUpdates ex_lib (NewEngineServer ex_config True) ex_calls)))
     \<le> MaxBuilders ex_lib"
    by simp
  moreover have "map fst (builders (runForkchoiceUpdates ex_lib (NewEngineServer ex_config True) ex_calls)) = [2, 3]"
    by (simp add: ex_run ex_after_def)
  moreover have "builders (fst (evictOldBuilders ex_lib
      (ex_after 51 2 [(1, NewBlockBuilder (ex_built 50 1)), (2, NewBlockBuilder (ex_built 51 2))]))) =
     [(2, NewBlockBuilder (ex_built 51 2))]"
    by (simp add: evictOldBuilders_def SortedKeys_def ex_after_def ex_lib_def evictLoop.simps Let_def)
  ultimately show ?thesis by simp
qed

end
